theory Spec2Isabelle
  imports Complex_Main
begin

section \<open>Python strings\<close>

text \<open>
  The answer-analysis code of \<^verbatim>\<open>backend/agents_ai/src/agents_ai/main.py\<close> works on
  Python \<^verbatim>\<open>str\<close> values. A Python string is a sequence of code points, and a string of
  this theory is the list of these numbers, so \<^const>\<open>length\<close> is Python's \<^verbatim>\<open>len\<close>. The
  code points \<open>0xD800\<close> to \<open>0xDFFF\<close>, the surrogates, can stand in a Python string (the
  JSON text \<^verbatim>\<open>"\ud800"\<close> is read as one), but UTF-8 has no encoding for them.

  The whitespace of \<^verbatim>\<open>strip\<close> and \<^verbatim>\<open>split\<close> is given for all code points. The case mapping
  of \<^verbatim>\<open>lower\<close> is given for the code points below 256; a code point from 256 on is left as
  it is, as \<^verbatim>\<open>lower\<close> leaves all of them but the uppercase and titlecase letters beyond
  Latin-1. Strings with such letters are outside the model. No theorem below depends on
  what the case mapping does.
\<close>

type_synonym py_str = "nat list"

definition lit :: "string \<Rightarrow> py_str" where
  \<comment> \<open>a string literal of the source (ASCII), as its code points\<close>
  "lit s = map of_char s"

definition py_isspace :: "nat \<Rightarrow> bool" where
  \<comment> \<open>the characters \<^verbatim>\<open>str.strip()\<close> and \<^verbatim>\<open>str.split()\<close> treat as whitespace:
      TAB, LF, VT, FF, CR, FS, GS, RS, US, space, NEL and NBSP, and beyond Latin-1 the
      Ogham space mark, the spaces U+2000 to U+200A, the line and paragraph separators, the
      narrow no-break space, the medium mathematical space and the ideographic space\<close>
  "py_isspace n =
     ((9 \<le> n \<and> n \<le> 13) \<or> (28 \<le> n \<and> n \<le> 32) \<or> n = 133 \<or> n = 160
      \<or> n = 5760 \<or> (8192 \<le> n \<and> n \<le> 8202) \<or> n = 8232 \<or> n = 8233
      \<or> n = 8239 \<or> n = 8287 \<or> n = 12288)"

definition py_lower_char :: "nat \<Rightarrow> nat" where
  \<comment> \<open>\<^verbatim>\<open>A\<close>..\<^verbatim>\<open>Z\<close> and the Latin-1 capitals 0xC0..0xDE (without the
      multiplication sign 0xD7) move up by 32; everything else stays\<close>
  "py_lower_char n =
     (if (65 \<le> n \<and> n \<le> 90) \<or> (192 \<le> n \<and> n \<le> 222 \<and> n \<noteq> 215)
      then n + 32 else n)"

definition py_lower :: "py_str \<Rightarrow> py_str" where
  \<comment> \<open>\<^verbatim>\<open>s.lower()\<close>\<close>
  "py_lower s = map py_lower_char s"

definition py_strip :: "py_str \<Rightarrow> py_str" where
  \<comment> \<open>\<^verbatim>\<open>s.strip()\<close>: whitespace removed at both ends\<close>
  "py_strip s = rev (dropWhile py_isspace (rev (dropWhile py_isspace s)))"

fun split_acc :: "py_str \<Rightarrow> py_str \<Rightarrow> py_str list" where
  \<comment> \<open>the scan of \<^verbatim>\<open>s.split()\<close>; the first argument is the token being read, reversed\<close>
  "split_acc w [] = (if w = [] then [] else [rev w])"
| "split_acc w (c # cs) =
     (if py_isspace c then (if w = [] then split_acc [] cs else rev w # split_acc [] cs)
      else split_acc (c # w) cs)"

definition py_split :: "py_str \<Rightarrow> py_str list" where
  \<comment> \<open>\<^verbatim>\<open>s.split()\<close>: the maximal runs of non-whitespace characters, in order\<close>
  "py_split s = split_acc [] s"

fun starts_with :: "py_str \<Rightarrow> py_str \<Rightarrow> bool" where
  "starts_with [] s = True"
| "starts_with (p # ps) [] = False"
| "starts_with (p # ps) (c # cs) = (p = c \<and> starts_with ps cs)"

fun py_in :: "py_str \<Rightarrow> py_str \<Rightarrow> bool" where
  \<comment> \<open>\<^verbatim>\<open>sub in s\<close>: \<open>sub\<close> occurs in \<open>s\<close> as a contiguous substring\<close>
  "py_in sub [] = (sub = [])"
| "py_in sub (c # cs) = (starts_with sub (c # cs) \<or> py_in sub cs)"

definition utf8_encodable :: "py_str \<Rightarrow> bool" where
  \<comment> \<open>\<^verbatim>\<open>s.encode("utf-8")\<close> raises UnicodeEncodeError exactly when \<open>s\<close> holds a surrogate\<close>
  "utf8_encodable s = list_all (\<lambda>n. n < 55296 \<or> 57343 < n) s"

section \<open>Python numbers\<close>

text \<open>
  Python's \<^verbatim>\<open>int\<close> is unbounded: counts and lengths are \<^typ>\<open>nat\<close>, scores are
  \<^typ>\<open>int\<close>. A \<^verbatim>\<open>float\<close> is an IEEE 754 binary64 number. Every float of this program
  is finite and not negative, and is kept exactly, as the pair of its 53-bit significand and
  its exponent: \<open>Float64 m e\<close> is the number \<open>m * 2 ^ e\<close>, with \<open>2 ^ 52 \<le> m < 2 ^ 53\<close>
  for a normal number, \<open>m < 2 ^ 52\<close> and \<open>e = - 1074\<close> for a subnormal one, and
  \<open>Float64 0 0\<close> for zero. Arithmetic rounds the exact result to the nearest such number,
  ties to the even significand.
\<close>

datatype py_error = ZeroDivisionError | OverflowError | ValueError | UnicodeEncodeError

datatype float64 = Float64 (significand: nat) (exponent: int)

datatype py_number = PyInt int | PyFloat float64

function bit_length :: "nat \<Rightarrow> nat" where
  \<comment> \<open>\<^verbatim>\<open>n.bit_length()\<close>\<close>
  "bit_length n = (if n = 0 then 0 else Suc (bit_length (n div 2)))"
  by pat_completeness auto
termination
  by (relation "measure id") auto

declare bit_length.simps [simp del]

definition pow2_le_quot :: "int \<Rightarrow> nat \<Rightarrow> nat \<Rightarrow> bool" where
  \<comment> \<open>\<open>2 ^ d \<le> a / b\<close>, for \<open>b > 0\<close>, in integers\<close>
  "pow2_le_quot d a b = (if 0 \<le> d then b * 2 ^ nat d \<le> a else b \<le> a * 2 ^ nat (- d))"

definition ilog2_quot :: "nat \<Rightarrow> nat \<Rightarrow> int" where
  \<comment> \<open>the integer \<open>e\<close> with \<open>2 ^ e \<le> a / b < 2 ^ (e + 1)\<close>, for \<open>a > 0\<close> and \<open>b > 0\<close>\<close>
  "ilog2_quot a b =
     (let d = int (bit_length a) - int (bit_length b)
      in if pow2_le_quot d a b then d else d - 1)"

definition rne_div :: "nat \<Rightarrow> nat \<Rightarrow> nat" where
  \<comment> \<open>\<open>a / b\<close> rounded to the nearest integer, a tie to the even one\<close>
  "rne_div a b =
     (let q = a div b; r = a mod b
      in if 2 * r < b then q
         else if b < 2 * r then q + 1
         else if even q then q else q + 1)"

definition round64 :: "nat \<Rightarrow> nat \<Rightarrow> float64 option" where
  \<comment> \<open>the binary64 number nearest to \<open>a / b\<close> (for \<open>b > 0\<close>); \<open>None\<close> when that is
      beyond the largest finite float\<close>
  "round64 a b =
     (if a = 0 then Some (Float64 0 0)
      else
        let e = ilog2_quot a b;
            s = min (52 - e) 1074;
            m = (if 0 \<le> s then rne_div (a * 2 ^ nat s) b else rne_div a (b * 2 ^ nat (- s)))
        in if m = 0 then Some (Float64 0 0)
           else if m = 2 ^ 53 then (if 971 < 1 - s then None else Some (Float64 (2 ^ 52) (1 - s)))
           else (if 971 < - s then None else Some (Float64 m (- s))))"

definition py_truediv :: "nat \<Rightarrow> nat \<Rightarrow> py_error + float64" where
  \<comment> \<open>\<^verbatim>\<open>a / b\<close> on ints: the correctly rounded quotient\<close>
  "py_truediv a b =
     (if b = 0 then Inl ZeroDivisionError
      else case round64 a b of None \<Rightarrow> Inl OverflowError | Some x \<Rightarrow> Inr x)"

definition py_float_mul :: "float64 \<Rightarrow> float64 \<Rightarrow> float64 option" where
  \<comment> \<open>\<^verbatim>\<open>x * y\<close> on floats; \<open>None\<close> is \<^verbatim>\<open>inf\<close>\<close>
  "py_float_mul x y =
     (let m = significand x * significand y; e = exponent x + exponent y
      in if 0 \<le> e then round64 (m * 2 ^ nat e) 1 else round64 m (2 ^ nat (- e)))"

definition float_100 :: float64 where
  \<comment> \<open>the int \<^verbatim>\<open>100\<close> as a float operand, \<^verbatim>\<open>100.0\<close>\<close>
  "float_100 = Float64 (100 * 2 ^ 46) (- 46)"

definition py_int :: "float64 \<Rightarrow> int" where
  \<comment> \<open>\<^verbatim>\<open>int(x)\<close> on a finite float: the fraction is cut off\<close>
  "py_int x =
     (if 0 \<le> exponent x then int (significand x * 2 ^ nat (exponent x))
      else int (significand x div 2 ^ nat (- exponent x)))"

definition float_value :: "float64 \<Rightarrow> real" where
  \<comment> \<open>the number a float stands for\<close>
  "float_value x = of_nat (significand x) * 2 powi exponent x"

section \<open>The answer analysis of \<^verbatim>\<open>main.py\<close>\<close>

subsection \<open>Expected keywords\<close>

text \<open>
  \<^verbatim>\<open>analyze_student_answer\<close> picks the expected keywords in one \<^verbatim>\<open>if\<close>/\<^verbatim>\<open>elif\<close> chain
  over the lowercased question, lecture title and course name (lines 509 to 576). The
  conditions of the chain and the inner chain of each topic are named here; the order of the
  tests is the order of the source. A topic whose inner chain matches nothing leaves the
  initial \<^verbatim>\<open>expected_keywords = []\<close>.
\<close>

definition python_topic :: "py_str \<Rightarrow> py_str \<Rightarrow> bool" where
  "python_topic question_lower lecture_lower =
     (py_in (lit ''python'') question_lower \<or> py_in (lit ''python'') lecture_lower)"

definition ml_topic :: "py_str \<Rightarrow> py_str \<Rightarrow> py_str \<Rightarrow> bool" where
  "ml_topic question_lower lecture_lower course_lower =
     (py_in (lit ''machine learning'') question_lower \<or> py_in (lit ''machine learning'') lecture_lower
      \<or> py_in (lit ''machine learning'') course_lower)"

definition neural_topic :: "py_str \<Rightarrow> py_str \<Rightarrow> py_str \<Rightarrow> bool" where
  "neural_topic question_lower lecture_lower course_lower =
     (py_in (lit ''neural'') question_lower \<or> py_in (lit ''deep learning'') lecture_lower
      \<or> py_in (lit ''deep learning'') course_lower)"

definition data_topic :: "py_str \<Rightarrow> py_str \<Rightarrow> py_str \<Rightarrow> bool" where
  "data_topic question_lower lecture_lower course_lower =
     (py_in (lit ''data'') question_lower \<or> py_in (lit ''analytics'') lecture_lower
      \<or> py_in (lit ''analytics'') course_lower)"

definition python_keywords :: "py_str \<Rightarrow> py_str list" where
  "python_keywords question_lower =
     (if py_in (lit ''feature'') question_lower \<or> py_in (lit ''popular'') question_lower
      then map lit [''readability'', ''easy'', ''simple'', ''libraries'', ''versatile'',
                    ''interpreted'']
      else if py_in (lit ''variable'') question_lower
      then map lit [''dynamic'', ''typing'', ''declaration'', ''assignment'', ''type'']
      else if py_in (lit ''list'') question_lower \<and> py_in (lit ''tuple'') question_lower
      then map lit [''mutable'', ''immutable'', ''parentheses'', ''brackets'', ''modify'']
      else if py_in (lit ''module'') question_lower \<or> py_in (lit ''package'') question_lower
      then map lit [''import'', ''organization'', ''reuse'', ''namespace'', ''library'']
      else if py_in (lit ''exception'') question_lower
      then map lit [''try'', ''except'', ''catch'', ''handle'', ''error'', ''finally'']
      else [])"

definition ml_keywords :: "py_str \<Rightarrow> py_str list" where
  "ml_keywords question_lower =
     (if py_in (lit ''differ'') question_lower \<or> py_in (lit ''traditional'') question_lower
      then map lit [''data'', ''patterns'', ''algorithm'', ''explicit'', ''programming'', ''learn'']
      else if py_in (lit ''supervised'') question_lower \<and> py_in (lit ''unsupervised'') question_lower
      then map lit [''labeled'', ''unlabeled'', ''target'', ''classification'', ''clustering'']
      else if py_in (lit ''training'') question_lower \<and> py_in (lit ''test'') question_lower
      then map lit [''generalization'', ''validation'', ''overfitting'', ''performance'',
                    ''evaluate'']
      else if py_in (lit ''overfitting'') question_lower
      then map lit [''regularization'', ''validation'', ''generalize'', ''complex'', ''flexible'']
      else if py_in (lit ''evaluation'') question_lower \<or> py_in (lit ''metric'') question_lower
      then map lit [''accuracy'', ''precision'', ''recall'', ''f1'', ''auc'', ''roc'']
      else [])"

definition neural_keywords :: "py_str \<Rightarrow> py_str list" where
  "neural_keywords question_lower =
     (if py_in (lit ''basic structure'') question_lower \<or> py_in (lit ''structure'') question_lower
      then map lit [''input'', ''hidden'', ''output'', ''layer'', ''weight'', ''bias'', ''neuron'']
      else if py_in (lit ''activation'') question_lower
      then map lit [''relu'', ''sigmoid'', ''tanh'', ''non-linear'', ''function'']
      else if py_in (lit ''cnn'') question_lower \<or> py_in (lit ''convolutional'') question_lower
      then map lit [''filter'', ''kernel'', ''convolution'', ''pooling'', ''feature'', ''image'']
      else if py_in (lit ''backpropagation'') question_lower
      then map lit [''gradient'', ''descent'', ''error'', ''weight'', ''update'', ''learning'']
      else if py_in (lit ''transfer'') question_lower
      then map lit [''pretrained'', ''model'', ''feature'', ''extraction'', ''fine-tuning'']
      else [])"

definition data_keywords :: "py_str \<Rightarrow> py_str list" where
  "data_keywords question_lower =
     (if py_in (lit ''workflow'') question_lower \<or> py_in (lit ''steps'') question_lower
      then map lit [''collection'', ''cleaning'', ''exploration'', ''analysis'', ''visualization'',
            ''interpretation'']
      else if py_in (lit ''descriptive'') question_lower \<and> py_in (lit ''inferential'') question_lower
      then map lit [''summarize'', ''population'', ''sample'', ''hypothesis'', ''testing'',
                    ''inference'']
      else if py_in (lit ''missing'') question_lower
      then map lit [''imputation'', ''deletion'', ''mean'', ''median'', ''mode'', ''regression'']
      else if py_in (lit ''feature'') question_lower \<and> py_in (lit ''engineering'') question_lower
      then map lit [''transformation'', ''selection'', ''creation'', ''normalization'', ''scaling'']
      else if py_in (lit ''visualization'') question_lower
      then map lit [''chart'', ''graph'', ''plot'', ''dashboard'', ''histogram'', ''scatter'']
      else [])"

definition stop_words :: "py_str list" where
  \<comment> \<open>the list literal of line 573\<close>
  "stop_words = map lit [''what'', ''explain'', ''describe'', ''discuss'', ''how'', ''when'',
                         ''where'', ''which'', ''this'', ''that'', ''these'', ''those'']"

definition set_add :: "py_str \<Rightarrow> py_str list \<Rightarrow> py_str list" where
  \<comment> \<open>\<^verbatim>\<open>key_terms.add(term)\<close>: the Python set is kept as a list without repetitions\<close>
  "set_add t key_terms = (if t \<in> set key_terms then key_terms else key_terms @ [t])"

definition generic_keywords :: "py_str \<Rightarrow> py_str \<Rightarrow> py_str list" where
  \<comment> \<open>lines 566 to 576. The order in which \<^verbatim>\<open>list(key_terms)\<close> gives the terms is not
      fixed by Python; nothing below depends on it.\<close>
  "generic_keywords lecture_lower question_lower =
     (let key_terms = [];
          key_terms = fold (\<lambda>t key_terms. if 3 < length t then set_add t key_terms
                                             else key_terms)
                        (py_split lecture_lower) key_terms;
          key_terms = fold (\<lambda>t key_terms. if 3 < length t \<and> t \<notin> set stop_words
                                             then set_add t key_terms else key_terms)
                        (py_split question_lower) key_terms
      in key_terms)"

definition expected_keywords_of :: "py_str \<Rightarrow> py_str \<Rightarrow> py_str \<Rightarrow> py_str list" where
  "expected_keywords_of question_lower lecture_lower course_lower =
     (if python_topic question_lower lecture_lower then python_keywords question_lower
      else if ml_topic question_lower lecture_lower course_lower then ml_keywords question_lower
      else if neural_topic question_lower lecture_lower course_lower
      then neural_keywords question_lower
      else if data_topic question_lower lecture_lower course_lower
      then data_keywords question_lower
      else generic_keywords lecture_lower question_lower)"

subsection \<open>Score, verdict and feedback\<close>

definition min_length :: nat where
  "min_length = 50"

definition match_score :: "nat \<Rightarrow> nat \<Rightarrow> py_error + int" where
  \<comment> \<open>lines 594 and 595: \<^verbatim>\<open>match_ratio = keyword_matches / len(expected_keywords) if
      expected_keywords else 0\<close>, then \<^verbatim>\<open>min(100, max(0, int(match_ratio * 100)))\<close>.
      \<^verbatim>\<open>int\<close> of an infinite float raises OverflowError. The \<^verbatim>\<open>min_keywords_needed\<close> of
      line 593 is never read.\<close>
  "match_score keyword_matches n =
     (if n \<noteq> 0
      then (case py_truediv keyword_matches n of
              Inl err \<Rightarrow> Inl err
            | Inr match_ratio \<Rightarrow>
                (case py_float_mul match_ratio float_100 of
                   None \<Rightarrow> Inl OverflowError
                 | Some p \<Rightarrow> Inr (min 100 (max 0 (py_int p)))))
      else Inr (min 100 (max 0 (0 * 100))))"

definition score_and_verdict :: "nat \<Rightarrow> nat \<Rightarrow> bool \<Rightarrow> py_error + int \<times> bool" where
  \<comment> \<open>lines 587 to 601: the pair of \<^verbatim>\<open>score\<close> and \<^verbatim>\<open>is_correct\<close>\<close>
  "score_and_verdict keyword_matches n length_adequate =
     (if n = 0 then Inr (if length_adequate then 70 else 30, length_adequate)
      else (case match_score keyword_matches n of
              Inl err \<Rightarrow> Inl err
            | Inr score \<Rightarrow>
                (let score = (if \<not> length_adequate then max 0 (score - 30) else score)
                 in Inr (score, 60 \<le> score))))"

definition feedback_no_answer :: py_str where
  "feedback_no_answer = lit ''No answer provided. Please try to answer the question.''"

definition feedback_too_brief :: py_str where
  "feedback_too_brief = lit ''Your answer is too brief. Please provide a more detailed explanation.''"

definition feedback_excellent :: py_str where
  "feedback_excellent = lit ''Excellent answer! You've covered all the key concepts thoroughly.''"

definition feedback_good :: py_str where
  "feedback_good = lit ''Good answer. You've addressed most of the important points.''"

definition feedback_partial :: py_str where
  "feedback_partial =
     (lit ''Partial answer. You've mentioned some relevant concepts, but missed others.'')"

definition feedback_needs_improvement :: py_str where
  "feedback_needs_improvement =
     (lit ''Your answer needs improvement. Try to include more specific details about key concepts.'')"

definition select_feedback :: "int \<Rightarrow> bool \<Rightarrow> py_str" where
  \<comment> \<open>lines 603 to 613\<close>
  "select_feedback score length_adequate =
     (if \<not> length_adequate then feedback_too_brief
      else if 90 \<le> score then feedback_excellent
      else if 70 \<le> score then feedback_good
      else if 50 \<le> score then feedback_partial
      else feedback_needs_improvement)"

subsection \<open>\<^verbatim>\<open>analyze_student_answer\<close>\<close>

text \<open>
  The function returns a dict. Its keys are the fields of the record below, with the prefix
  \<open>r_\<close>; the two counts are missing from the dict of the early return for an empty answer,
  so these two fields are options.
\<close>

record analysis =
  r_is_correct :: bool
  r_score :: int
  r_feedback :: py_str
  r_question :: py_str
  r_answer :: py_str
  r_matched_keywords :: "nat option"
  r_expected_keywords_count :: "nat option"

definition no_answer :: "py_str \<Rightarrow> bool" where
  \<comment> \<open>the test of line 491, \<^verbatim>\<open>not answer or answer.strip() == ""\<close>\<close>
  "no_answer answer = (answer = [] \<or> py_strip answer = [])"

definition analyze_student_answer ::
  "py_str \<Rightarrow> py_str \<Rightarrow> py_str \<Rightarrow> py_str \<Rightarrow> py_error + analysis" where
  "analyze_student_answer question answer lecture_title course_name =
     (if no_answer answer
      then Inr \<lparr>r_is_correct = False, r_score = 0, r_feedback = feedback_no_answer,
                r_question = question, r_answer = answer,
                r_matched_keywords = None, r_expected_keywords_count = None\<rparr>
      else
        let question_lower = py_lower question;
            answer_lower = py_lower answer;
            lecture_lower = py_lower lecture_title;
            course_lower = py_lower course_name;
            expected_keywords = expected_keywords_of question_lower lecture_lower course_lower;
            keyword_matches =
              length (filter (\<lambda>keyword. py_in keyword answer_lower) expected_keywords);
            length_adequate = (min_length \<le> length answer)
        in case score_and_verdict keyword_matches (length expected_keywords) length_adequate of
             Inl err \<Rightarrow> Inl err
           | Inr (score, is_correct) \<Rightarrow>
               Inr \<lparr>r_is_correct = is_correct, r_score = score,
                    r_feedback = select_feedback score length_adequate,
                    r_question = question, r_answer = answer,
                    r_matched_keywords = Some keyword_matches,
                    r_expected_keywords_count = Some (length expected_keywords)\<rparr>)"

subsection \<open>\<^verbatim>\<open>analyze_answers\<close>\<close>

text \<open>
  The request body and the content of the \<^verbatim>\<open>JSONResponse\<close>. The keys \<^verbatim>\<open>message\<close> and
  \<^verbatim>\<open>overall_score\<close> are not in every response. The message of the \<^verbatim>\<open>except\<close> branch is
  \<^verbatim>\<open>f"Failed to analyze answers: {str(e)}"\<close>; it is kept as the exception it is made
  from. Logging is left out.

  \<^verbatim>\<open>JSONResponse(...)\<close> renders its content when it is built: the content becomes JSON text
  that keeps the characters of its strings, and the text is encoded as UTF-8. The response
  with status 200 is built inside the \<^verbatim>\<open>try\<close> and holds every question and answer again,
  so a question or an answer with a surrogate raises UnicodeEncodeError there, and the
  \<^verbatim>\<open>except\<close> branch answers. The contents of the other two responses are ASCII.
\<close>

record answer_request =
  req_lecture_title :: py_str
  req_course_name :: py_str
  req_questions :: "py_str list"
  req_answers :: "py_str list"

datatype message = Text py_str | Failed_to_analyze py_error

record json_response =
  resp_status_code :: nat
  resp_status :: py_str
  resp_message :: "message option"
  resp_overall_score :: "py_number option"
  resp_results :: "analysis list"

fun analyze_pairs ::
  "(py_str \<times> py_str) list \<Rightarrow> py_str \<Rightarrow> py_str \<Rightarrow> py_error + analysis list" where
  \<comment> \<open>the loop of lines 451 to 454 over \<^verbatim>\<open>zip(request.questions, request.answers)\<close>;
      an exception of a call ends the loop\<close>
  "analyze_pairs [] lecture_title course_name = Inr []"
| "analyze_pairs ((question, answer) # rest) lecture_title course_name =
     (case analyze_student_answer question answer lecture_title course_name of
        Inl err \<Rightarrow> Inl err
      | Inr analysis \<Rightarrow>
          (case analyze_pairs rest lecture_title course_name of
             Inl err \<Rightarrow> Inl err
           | Inr results \<Rightarrow> Inr (analysis # results)))"

definition overall_score_of :: "nat \<Rightarrow> nat \<Rightarrow> py_error + py_number" where
  \<comment> \<open>line 459, \<^verbatim>\<open>(correct_count / total_count) * 100 if total_count > 0 else 0\<close>; an
      infinite float is refused with ValueError when the response is rendered as JSON\<close>
  "overall_score_of correct_count total_count =
     (if 0 < total_count
      then (case py_truediv correct_count total_count of
              Inl err \<Rightarrow> Inl err
            | Inr ratio \<Rightarrow>
                (case py_float_mul ratio float_100 of
                   None \<Rightarrow> Inl ValueError
                 | Some x \<Rightarrow> Inr (PyFloat x)))
      else Inr (PyInt 0))"

definition renders :: "analysis list \<Rightarrow> bool" where
  \<comment> \<open>the content of the response with status 200 can be encoded: the feedback and the
      status are ASCII, the questions and answers are those of the request\<close>
  "renders results =
     list_all (\<lambda>r. utf8_encodable (r_question r) \<and> utf8_encodable (r_answer r)) results"

definition failure_response :: "py_error \<Rightarrow> json_response" where
  \<comment> \<open>the \<^verbatim>\<open>except Exception\<close> branch, lines 470 to 481\<close>
  "failure_response err =
     \<lparr>resp_status_code = 500, resp_status = lit ''error'',
      resp_message = Some (Failed_to_analyze err),
      resp_overall_score = None, resp_results = []\<rparr>"

definition analyze_answers :: "answer_request \<Rightarrow> json_response" where
  "analyze_answers request =
     (if length (req_questions request) \<noteq> length (req_answers request)
      then \<lparr>resp_status_code = 400, resp_status = lit ''error'',
             resp_message = Some (Text (lit ''Number of questions and answers must match'')),
             resp_overall_score = None, resp_results = []\<rparr>
      else
        (case analyze_pairs (zip (req_questions request) (req_answers request))
                (req_lecture_title request) (req_course_name request) of
           Inl err \<Rightarrow> failure_response err
         | Inr results \<Rightarrow>
             (let correct_count = length (filter r_is_correct results);
                  total_count = length results
              in case overall_score_of correct_count total_count of
                   Inl err \<Rightarrow> failure_response err
                 | Inr overall_score \<Rightarrow>
                     (if renders results
                      then \<lparr>resp_status_code = 200, resp_status = lit ''success'',
                             resp_message = None, resp_overall_score = Some overall_score,
                             resp_results = results\<rparr>
                      else failure_response UnicodeEncodeError))))"

section \<open>The specification's wording\<close>

text \<open>
  Where the specification describes a computation in other words than the code, its
  description is written down here (names starting with \<open>spec_\<close>) and compared with the
  code below.
\<close>

definition spec_length_adequate :: "py_str \<Rightarrow> bool" where
  \<comment> \<open>"lengthAdequate = length(trimmed answer) >= 50"\<close>
  "spec_length_adequate answer = (50 \<le> length (py_strip answer))"

definition spec_select_feedback :: "int \<Rightarrow> py_str \<Rightarrow> py_str" where
  \<comment> \<open>"not lengthAdequate gives the too brief message regardless of score; otherwise
      score >= 90 gives the excellent message, score >= 70 the good message, score >= 50 the
      partial message, and anything lower the needs improvement message", with the
      lengthAdequate of the specification\<close>
  "spec_select_feedback score answer =
     (if \<not> spec_length_adequate answer then feedback_too_brief
      else if 90 \<le> score then feedback_excellent
      else if 70 \<le> score then feedback_good
      else if 50 \<le> score then feedback_partial
      else feedback_needs_improvement)"

definition spec_round :: "nat \<Rightarrow> nat \<Rightarrow> int" where
  \<comment> \<open>\<open>a / b\<close> rounded to the nearest integer (a half goes up), for \<open>b > 0\<close>\<close>
  "spec_round a b = int ((2 * a + b) div (2 * b))"

definition spec_score :: "nat \<Rightarrow> nat \<Rightarrow> bool \<Rightarrow> int" where
  \<comment> \<open>"matchRatio = matchedCount / |expectedKeywords|; score = clamp(round(matchRatio*100),
      0, 100); if not lengthAdequate, score = max(0, score - 30)"\<close>
  "spec_score matched_count n length_adequate =
     (let score = min 100 (max 0 (spec_round (100 * matched_count) n))
      in if \<not> length_adequate then max 0 (score - 30) else score)"

definition spec_generic_keywords :: "py_str \<Rightarrow> py_str \<Rightarrow> py_str set" where
  \<comment> \<open>"tokenize lectureTitle and question on whitespace, keep tokens with length > 3
      excluding a fixed stopword list; union into a set"\<close>
  "spec_generic_keywords lecture_lower question_lower =
     set (filter (\<lambda>t. 3 < length t \<and> t \<notin> set stop_words)
            (py_split lecture_lower @ py_split question_lower))"

text \<open>
  The conditions under which a topic of the chain is taken and its inner chain matches
  nothing: the disjunction of the inner conditions of each topic, and the test of the topics
  in the order of the chain.
\<close>

definition python_subpattern :: "py_str \<Rightarrow> bool" where
  "python_subpattern question_lower =
     (py_in (lit ''feature'') question_lower \<or> py_in (lit ''popular'') question_lower
      \<or> py_in (lit ''variable'') question_lower
      \<or> (py_in (lit ''list'') question_lower \<and> py_in (lit ''tuple'') question_lower)
      \<or> py_in (lit ''module'') question_lower \<or> py_in (lit ''package'') question_lower
      \<or> py_in (lit ''exception'') question_lower)"

definition ml_subpattern :: "py_str \<Rightarrow> bool" where
  "ml_subpattern question_lower =
     (py_in (lit ''differ'') question_lower \<or> py_in (lit ''traditional'') question_lower
      \<or> (py_in (lit ''supervised'') question_lower \<and> py_in (lit ''unsupervised'') question_lower)
      \<or> (py_in (lit ''training'') question_lower \<and> py_in (lit ''test'') question_lower)
      \<or> py_in (lit ''overfitting'') question_lower
      \<or> py_in (lit ''evaluation'') question_lower \<or> py_in (lit ''metric'') question_lower)"

definition neural_subpattern :: "py_str \<Rightarrow> bool" where
  "neural_subpattern question_lower =
     (py_in (lit ''basic structure'') question_lower \<or> py_in (lit ''structure'') question_lower
      \<or> py_in (lit ''activation'') question_lower
      \<or> py_in (lit ''cnn'') question_lower \<or> py_in (lit ''convolutional'') question_lower
      \<or> py_in (lit ''backpropagation'') question_lower
      \<or> py_in (lit ''transfer'') question_lower)"

definition data_subpattern :: "py_str \<Rightarrow> bool" where
  "data_subpattern question_lower =
     (py_in (lit ''workflow'') question_lower \<or> py_in (lit ''steps'') question_lower
      \<or> (py_in (lit ''descriptive'') question_lower \<and> py_in (lit ''inferential'') question_lower)
      \<or> py_in (lit ''missing'') question_lower
      \<or> (py_in (lit ''feature'') question_lower \<and> py_in (lit ''engineering'') question_lower)
      \<or> py_in (lit ''visualization'') question_lower)"

definition no_topic :: "py_str \<Rightarrow> py_str \<Rightarrow> py_str \<Rightarrow> bool" where
  \<comment> \<open>the generic branch is taken\<close>
  "no_topic question_lower lecture_lower course_lower =
     (\<not> (python_topic question_lower lecture_lower
          \<or> ml_topic question_lower lecture_lower course_lower
          \<or> neural_topic question_lower lecture_lower course_lower
          \<or> data_topic question_lower lecture_lower course_lower))"

definition topic_without_subpattern :: "py_str \<Rightarrow> py_str \<Rightarrow> py_str \<Rightarrow> bool" where
  \<comment> \<open>one of the four topics is taken and none of its inner conditions holds\<close>
  "topic_without_subpattern question_lower lecture_lower course_lower =
     (if python_topic question_lower lecture_lower then \<not> python_subpattern question_lower
      else if ml_topic question_lower lecture_lower course_lower
      then \<not> ml_subpattern question_lower
      else if neural_topic question_lower lecture_lower course_lower
      then \<not> neural_subpattern question_lower
      else if data_topic question_lower lecture_lower course_lower
      then \<not> data_subpattern question_lower
      else False)"

section \<open>Facts about the numbers\<close>

text \<open>
  A quotient \<open>a / b\<close> with \<open>a \<le> b\<close> rounds to a finite float that is at most one, and
  its product with \<open>100.0\<close> is finite: the divisions and multiplications of the analysis
  raise nothing and give no infinity.
\<close>

lemma bit_length_0: "bit_length 0 = 0"
  by (simp add: bit_length.simps[of 0])

lemma bit_length_1: "bit_length (Suc 0) = 1"
  by (simp add: bit_length.simps[of "Suc 0"] bit_length_0)

lemma bit_length_numeral: "bit_length (numeral k) = Suc (bit_length (numeral k div 2))"
  by (simp add: bit_length.simps[of "numeral k"])

lemmas bit_length_eval = bit_length_0 bit_length_1 bit_length_numeral


lemma bit_length_le_iff: "bit_length n \<le> k \<longleftrightarrow> n < 2 ^ k"
proof (induction k arbitrary: n)
  case 0
  show ?case by (cases "n = 0") (simp_all add: bit_length.simps[of n] bit_length_0)
next
  case (Suc k)
  show ?case
  proof (cases "n = 0")
    case True
    then show ?thesis by (simp add: bit_length_0)
  next
    case False
    have "bit_length n \<le> Suc k \<longleftrightarrow> bit_length (n div 2) \<le> k"
      using False by (simp add: bit_length.simps[of n])
    also have "\<dots> \<longleftrightarrow> n div 2 < 2 ^ k" by (rule Suc.IH)
    also have "\<dots> \<longleftrightarrow> n < 2 ^ Suc k" by auto
    finally show ?thesis .
  qed
qed

lemma bit_length_mono: "a \<le> b \<Longrightarrow> bit_length a \<le> bit_length b"
proof -
  assume ab: "a \<le> b"
  have "b < 2 ^ bit_length b" using bit_length_le_iff[of b "bit_length b"] by simp
  with ab have "a < 2 ^ bit_length b" by simp
  then show ?thesis by (simp add: bit_length_le_iff)
qed

lemma bit_length_power2: "bit_length (2 ^ k) = Suc k"
proof -
  have "bit_length (2 ^ k) \<le> Suc k" by (simp add: bit_length_le_iff)
  moreover have "\<not> bit_length (2 ^ k) \<le> k" by (simp add: bit_length_le_iff)
  ultimately show ?thesis by simp
qed

lemma ilog2_quot_le: "ilog2_quot a b \<le> int (bit_length a) - int (bit_length b)"
  by (simp add: ilog2_quot_def Let_def)

lemma rne_div_le:
  assumes "0 < b" and "a \<le> b * c"
  shows "rne_div a b \<le> c"
proof -
  have q: "a div b \<le> c" using assms
    by (metis div_le_mono nonzero_mult_div_cancel_left less_numeral_extra(3))
  show ?thesis
  proof (cases "a div b = c")
    case True
    have "a = b * (a div b) + a mod b" by simp
    with True assms have "a mod b = 0" by (metis add_diff_cancel_left' diff_is_0_eq')
    with True assms show ?thesis by (simp add: rne_div_def Let_def)
  next
    case False
    with q have "a div b + 1 \<le> c" by simp
    then show ?thesis by (auto simp: rne_div_def Let_def)
  qed
qed


lemma round64_le_one:
  assumes b: "0 < b" and ab: "a \<le> b"
  shows "\<exists>x. round64 a b = Some x \<and> exponent x \<le> 0
             \<and> significand x \<le> 2 ^ nat (- exponent x)"
proof (cases "a = 0")
  case True
  then show ?thesis by (simp add: round64_def)
next
  case False
  define e where "e = ilog2_quot a b"
  define s where "s = min (52 - e) 1074"
  define m where "m = rne_div (a * 2 ^ nat s) b"
  have "e \<le> 0"
    using ilog2_quot_le[of a b] bit_length_mono[OF ab] by (simp add: e_def)
  then have s: "52 \<le> s" by (simp add: s_def)
  have m: "m \<le> 2 ^ nat s"
    unfolding m_def using b ab by (intro rne_div_le) simp_all
  have r: "round64 a b =
      (if m = 0 then Some (Float64 0 0)
       else if m = 2 ^ 53 then (if 971 < 1 - s then None else Some (Float64 (2 ^ 52) (1 - s)))
       else (if 971 < - s then None else Some (Float64 m (- s))))"
  proof -
    have "0 \<le> s" using s by simp
    then have "(if 0 \<le> s then rne_div (a * 2 ^ nat s) b else rne_div a (b * 2 ^ nat (- s))) = m"
      by (simp only: m_def if_True)
    then show ?thesis
      unfolding round64_def Let_def e_def[symmetric] s_def[symmetric]
      using False by (simp only: if_False)
  qed
  show ?thesis
  proof (cases "m = 0")
    case True
    with r show ?thesis by simp
  next
    case m0: False
    show ?thesis
    proof (cases "m = 2 ^ 53")
      case True
      from True m have "(2::nat) ^ 53 \<le> 2 ^ nat s" by simp
      then have "53 \<le> nat s" by (simp only: power_increasing_iff rel_simps)
      then have "(2::nat) ^ 52 \<le> 2 ^ nat (s - 1)"
        by (intro power_increasing) simp_all
      with r m0 True s show ?thesis by simp
    next
      case False
      with r m0 s m show ?thesis by simp
    qed
  qed
qed

lemma round64_finite:
  assumes ab: "a \<le> b * 2 ^ k" and k: "k \<le> 1000"
  shows "\<exists>y. round64 a b = Some y"
proof (cases "a = 0")
  case True
  then show ?thesis by (simp add: round64_def)
next
  case False
  define e where "e = ilog2_quot a b"
  define s where "s = min (52 - e) 1074"
  define m where "m = (if 0 \<le> s then rne_div (a * 2 ^ nat s) b else rne_div a (b * 2 ^ nat (- s)))"
  have "b < 2 ^ bit_length b" using bit_length_le_iff[of b "bit_length b"] by simp
  then have "b * 2 ^ k < 2 ^ bit_length b * 2 ^ k" by simp
  with ab have "a < 2 ^ bit_length b * 2 ^ k" by (rule le_less_trans)
  then have "a < 2 ^ (bit_length b + k)" by (simp only: power_add)
  then have "bit_length a \<le> bit_length b + k" by (simp only: bit_length_le_iff)
  with ilog2_quot_le[of a b] have "e \<le> int k" by (simp add: e_def)
  with k have s: "- 948 \<le> s" by (simp add: s_def)
  have "round64 a b =
      (if m = 0 then Some (Float64 0 0)
       else if m = 2 ^ 53 then (if 971 < 1 - s then None else Some (Float64 (2 ^ 52) (1 - s)))
       else (if 971 < - s then None else Some (Float64 m (- s))))"
    unfolding round64_def Let_def e_def[symmetric] s_def[symmetric] m_def[symmetric]
    using False by (simp only: if_False)
  with s show ?thesis by simp
qed

lemma py_float_mul_commute: "py_float_mul x y = py_float_mul y x"
  by (simp add: py_float_mul_def mult.commute add.commute)

lemma py_float_mul_100_finite:
  assumes e: "exponent x \<le> 0" and m: "significand x \<le> 2 ^ nat (- exponent x)"
  shows "\<exists>y. py_float_mul x float_100 = Some y"
proof -
  define t where "t = nat (- exponent x)"
  have ex: "exponent x = - int t" using e by (simp add: t_def)
  have "significand x * (100 * 2 ^ 46) \<le> 2 ^ t * (100 * 2 ^ 46)"
    using m by (simp add: t_def)
  also have "\<dots> \<le> 2 ^ t * (2 ^ 46 * 2 ^ 7)" by simp
  also have "\<dots> = 2 ^ (46 + t) * (2::nat) ^ 7" by (simp add: power_add)
  finally have "\<exists>y. round64 (significand x * (100 * 2 ^ 46)) (2 ^ (46 + t)) = Some y"
    by (intro round64_finite[where k = 7]) simp_all
  moreover have "nat (46 + int t) = 46 + t" by simp
  ultimately show ?thesis
    by (simp add: py_float_mul_def float_100_def Let_def ex)
qed

lemma ratio_percent_finite:
  assumes "0 < n" and "k \<le> n"
  shows "\<exists>x y. py_truediv k n = Inr x \<and> py_float_mul x float_100 = Some y"
proof -
  from round64_le_one[OF assms] obtain x where
    x: "round64 k n = Some x" "exponent x \<le> 0" "significand x \<le> 2 ^ nat (- exponent x)"
    by blast
  from py_float_mul_100_finite[OF x(2,3)] obtain y where "py_float_mul x float_100 = Some y"
    by blast
  with x(1) assms show ?thesis by (simp add: py_truediv_def)
qed

lemma match_score_total:
  assumes "k \<le> n"
  shows "\<exists>s. match_score k n = Inr s \<and> 0 \<le> s \<and> s \<le> 100"
proof (cases "n = 0")
  case True
  then show ?thesis by (simp add: match_score_def)
next
  case False
  with assms ratio_percent_finite[of n k] obtain x y where
    "py_truediv k n = Inr x" "py_float_mul x float_100 = Some y" by auto
  with False show ?thesis by (simp add: match_score_def)
qed

text \<open>
  The rounding is the rounding of binary64: \<^const>\<open>ilog2_quot\<close> is the binary exponent of the
  quotient, \<^const>\<open>rne_div\<close> is within a half of the exact quotient, and so the result of
  \<^const>\<open>round64\<close> has a significand of at most 53 bits, an exponent in the range of the
  format, and lies within half a unit in the last place of \<open>a / b\<close>. For a quotient in the
  normal range this is a relative error of at most \<open>2 ^ - 53\<close>, and a percentage
  \<^verbatim>\<open>(c / t) * 100\<close> is within \<open>2 ^ - 51\<close> of the exact \<open>100 * c / t\<close>, relatively.
\<close>

lemma bit_length_upper: "n < 2 ^ bit_length n"
  using bit_length_le_iff[of n "bit_length n"] by simp

lemma bit_length_pos: "0 < n \<Longrightarrow> 0 < bit_length n"
  using bit_length_le_iff[of n 0] by simp

lemma bit_length_lower: "0 < n \<Longrightarrow> 2 ^ (bit_length n - 1) \<le> n"
proof -
  assume n: "0 < n"
  from bit_length_pos[OF n] have "\<not> bit_length n \<le> bit_length n - 1" by simp
  with bit_length_le_iff[of n "bit_length n - 1"] have "\<not> n < 2 ^ (bit_length n - 1)"
    by blast
  then show ?thesis by (simp only: not_less)
qed

lemma pow2_le_quot_iff:
  assumes "0 < b"
  shows "pow2_le_quot d a b \<longleftrightarrow> (2::real) powi d \<le> of_nat a / of_nat b"
proof (cases "0 \<le> d")
  case True
  have "(b * 2 ^ nat d \<le> a) = ((of_nat (b * 2 ^ nat d) :: real) \<le> of_nat a)"
    by (simp only: of_nat_le_iff)
  also have "\<dots> = ((2::real) ^ nat d \<le> of_nat a / of_nat b)"
    using assms by (simp add: pos_le_divide_eq mult.commute)
  finally show ?thesis using True by (simp add: pow2_le_quot_def power_int_nonneg_exp)
next
  case False
  then have d: "d = - int (nat (- d))" by simp
  have "(b \<le> a * 2 ^ nat (- d)) = ((of_nat b :: real) \<le> of_nat (a * 2 ^ nat (- d)))"
    by (simp only: of_nat_le_iff)
  also have "\<dots> = (1 / (2::real) ^ nat (- d) \<le> of_nat a / of_nat b)"
    using assms by (simp add: field_simps)
  also have "1 / (2::real) ^ nat (- d) = 2 powi d"
    by (subst (2) d) (simp only: power_int_minus_divide power_int_of_nat)
  finally show ?thesis using False by (simp add: pow2_le_quot_def)
qed

lemma quot_bit_length_bounds:
  assumes a: "0 < a" and b: "0 < b"
  defines "d \<equiv> int (bit_length a) - int (bit_length b)"
  shows "(2::real) powi (d - 1) < of_nat a / of_nat b" and "of_nat a / of_nat b < (2::real) powi (d + 1)"
proof -
  have al: "(2::real) ^ (bit_length a - 1) \<le> of_nat a"
    using bit_length_lower[OF a] by (metis of_nat_le_iff of_nat_numeral of_nat_power)
  have au: "of_nat a < (2::real) ^ bit_length a"
    using bit_length_upper[of a] by (metis of_nat_less_iff of_nat_numeral of_nat_power)
  have bl: "(2::real) ^ (bit_length b - 1) \<le> of_nat b"
    using bit_length_lower[OF b] by (metis of_nat_le_iff of_nat_numeral of_nat_power)
  have bu: "of_nat b < (2::real) ^ bit_length b"
    using bit_length_upper[of b] by (metis of_nat_less_iff of_nat_numeral of_nat_power)
  have pa: "int (bit_length a - 1) = int (bit_length a) - 1"
    using bit_length_pos[OF a] by simp
  have pb: "int (bit_length b - 1) = int (bit_length b) - 1"
    using bit_length_pos[OF b] by simp
  have b0: "(0::real) < of_nat b" using b by simp
  have "d - 1 = int (bit_length a - 1) - int (bit_length b)"
    unfolding d_def pa by simp
  then have "(2::real) powi (d - 1) = 2 powi (int (bit_length a - 1) - int (bit_length b))"
    by simp
  also have "\<dots> = 2 powi int (bit_length a - 1) / 2 powi int (bit_length b)"
    by (rule power_int_diff) simp
  also have "\<dots> = 2 ^ (bit_length a - 1) / 2 ^ bit_length b"
    by (simp only: power_int_of_nat)
  also have "\<dots> \<le> of_nat a / 2 ^ bit_length b"
    using al by (simp add: divide_right_mono)
  also have "\<dots> < of_nat a / of_nat b"
    using bu b0 a by (simp add: divide_strict_left_mono)
  finally show "(2::real) powi (d - 1) < of_nat a / of_nat b" .
  have "of_nat a / of_nat b < (2::real) ^ bit_length a / of_nat b"
    using au b0 by (simp add: divide_strict_right_mono)
  also have "\<dots> \<le> 2 ^ bit_length a / 2 ^ (bit_length b - 1)"
    using bl b0 by (simp add: divide_left_mono)
  also have "\<dots> = 2 powi int (bit_length a) / 2 powi int (bit_length b - 1)"
    by (simp only: power_int_of_nat)
  also have "\<dots> = 2 powi (int (bit_length a) - int (bit_length b - 1))"
    by (rule power_int_diff[symmetric]) simp
  also have "int (bit_length a) - int (bit_length b - 1) = d + 1"
    unfolding d_def pb by simp
  finally show "of_nat a / of_nat b < (2::real) powi (d + 1)" .
qed

lemma ilog2_quot_bounds:
  assumes a: "0 < a" and b: "0 < b"
  shows "(2::real) powi ilog2_quot a b \<le> of_nat a / of_nat b"
    and "of_nat a / of_nat b < (2::real) powi (ilog2_quot a b + 1)"
proof -
  define d where "d = int (bit_length a) - int (bit_length b)"
  note q = quot_bit_length_bounds[OF a b, folded d_def]
  show "(2::real) powi ilog2_quot a b \<le> of_nat a / of_nat b"
  proof (cases "pow2_le_quot d a b")
    case True
    then show ?thesis
      using pow2_le_quot_iff[OF b, of d a] by (simp add: ilog2_quot_def Let_def d_def)
  next
    case False
    then show ?thesis using q(1) by (simp add: ilog2_quot_def Let_def d_def)
  qed
  show "of_nat a / of_nat b < (2::real) powi (ilog2_quot a b + 1)"
  proof (cases "pow2_le_quot d a b")
    case True
    then show ?thesis using q(2) by (simp add: ilog2_quot_def Let_def d_def)
  next
    case False
    then show ?thesis
      using pow2_le_quot_iff[OF b, of d a] by (simp add: ilog2_quot_def Let_def d_def)
  qed
qed

lemma rne_div_nearest:
  assumes "0 < c"
  shows "\<bar>real (rne_div a c) - real a / real c\<bar> \<le> 1 / 2"
proof -
  define q where "q = a div c"
  define r where "r = a mod c"
  have a: "real a = real q * real c + real r"
    unfolding q_def r_def by (metis of_nat_add of_nat_mult div_mult_mod_eq)
  have c: "0 < real c" using assms by simp
  have x: "real a / real c = real q + real r / real c"
    using c by (simp add: a add_divide_distrib)
  have r: "real r < real c" using assms by (simp add: r_def)
  consider "2 * r < c" | "c < 2 * r" | "2 * r = c" by linarith
  then show ?thesis
  proof cases
    case 1
    then have "rne_div a c = q" by (simp add: rne_div_def Let_def q_def r_def)
    moreover from 1 have "2 * real r < real c" by (metis of_nat_less_iff of_nat_mult of_nat_numeral)
    then have "real r / real c < 1 / 2" using c by (simp add: field_simps)
    ultimately show ?thesis using x c by simp
  next
    case 2
    then have "rne_div a c = q + 1" by (simp add: rne_div_def Let_def q_def r_def)
    moreover from 2 have "real c < 2 * real r" by (metis of_nat_less_iff of_nat_mult of_nat_numeral)
    then have "1 / 2 < real r / real c" using c by (simp add: field_simps)
    moreover have "real r / real c < 1" using r c by simp
    ultimately show ?thesis using x by simp
  next
    case 3
    then have "rne_div a c = q \<or> rne_div a c = q + 1"
      by (simp add: rne_div_def Let_def q_def r_def)
    moreover from 3 have "2 * real r = real c" by (metis of_nat_mult of_nat_numeral)
    then have "real r / real c = 1 / 2" using c by (simp add: field_simps)
    ultimately show ?thesis using x by auto
  qed
qed

lemma rne_div_ge:
  assumes "0 < c" and "n * c \<le> a"
  shows "n \<le> rne_div a c"
proof -
  have "n \<le> a div c" using assms by (metis div_le_mono div_mult_self_is_m)
  then show ?thesis by (auto simp: rne_div_def Let_def)
qed

lemma round64_result:
  assumes a: "0 < a" and b: "0 < b" and r: "round64 a b = Some x"
  defines "s \<equiv> min (52 - ilog2_quot a b) 1074"
  shows "\<bar>float_value x - real a / real b\<bar> \<le> 2 powi (- s) / 2"
    and "significand x < 2 ^ 53"
    and "- 1074 \<le> exponent x \<or> x = Float64 0 0"
    and "exponent x \<le> 971"
    and "2 ^ 52 \<le> significand x \<or> exponent x = - 1074 \<or> x = Float64 0 0"
proof -
  define e where "e = ilog2_quot a b"
  define A where "A = (if 0 \<le> s then a * 2 ^ nat s else a)"
  define C where "C = (if 0 \<le> s then b else b * 2 ^ nat (- s))"
  define m where "m = rne_div A C"
  have s: "s = min (52 - e) 1074" by (simp add: s_def e_def)
  have C0: "0 < C" using b by (simp add: C_def)
  have rC: "0 < real C" using C0 by simp
  have rb: "0 < real b" using b by simp
  have AC: "real A / real C = real a / real b * 2 powi s"
  proof (cases "0 \<le> s")
    case True
    then have "(2::real) powi s = 2 ^ nat s" by (simp add: power_int_nonneg_exp)
    with True show ?thesis by (simp add: A_def C_def)
  next
    case False
    then have "s = - int (nat (- s))" by simp
    then have "(2::real) powi s = 2 powi (- int (nat (- s)))" by simp
    also have "\<dots> = 1 / 2 ^ nat (- s)" by (simp only: power_int_minus_divide power_int_of_nat)
    finally show ?thesis using False by (simp add: A_def C_def)
  qed
  have m': "(if 0 \<le> s then rne_div (a * 2 ^ nat s) b else rne_div a (b * 2 ^ nat (- s))) = m"
    by (simp add: m_def A_def C_def)
  have unfold: "round64 a b =
      (if m = 0 then Some (Float64 0 0)
       else if m = 2 ^ 53 then (if 971 < 1 - s then None else Some (Float64 (2 ^ 52) (1 - s)))
       else (if 971 < - s then None else Some (Float64 m (- s))))"
    unfolding round64_def Let_def s_def[symmetric] m'
    using a by (simp only: if_False less_numeral_extra(3) neq0_conv[symmetric])
  from r[unfolded unfold]
  consider (zero) "m = 0" "x = Float64 0 0"
    | (carry) "m = 2 ^ 53" "x = Float64 (2 ^ 52) (1 - s)" "1 - s \<le> 971"
    | (plain) "m \<noteq> 0" "m \<noteq> 2 ^ 53" "x = Float64 m (- s)" "- s \<le> 971"
    by (auto split: if_splits)
  note cases = this
  have val: "float_value x = real m * 2 powi (- s)"
  proof (cases rule: cases)
    case zero
    then show ?thesis by (simp add: float_value_def)
  next
    case carry
    have "(2::real) powi (1 + (- s)) = 2 powi 1 * 2 powi (- s)"
      by (rule power_int_add) simp
    then have "(2::real) powi (1 - s) = 2 * 2 powi (- s)" by simp
    with carry show ?thesis by (simp add: float_value_def)
  next
    case plain
    then show ?thesis by (simp add: float_value_def)
  qed
  have near: "\<bar>real m - real A / real C\<bar> \<le> 1 / 2"
    unfolding m_def by (rule rne_div_nearest[OF C0])
  have inv: "(2::real) powi s * 2 powi (- s) = 1"
    by (simp add: power_int_minus field_simps)
  have "float_value x - real a / real b = (real m - real A / real C) * 2 powi (- s)"
    using inv by (simp add: val AC algebra_simps)
  then have "\<bar>float_value x - real a / real b\<bar> = \<bar>real m - real A / real C\<bar> * 2 powi (- s)"
    by (simp add: abs_mult)
  also have "\<dots> \<le> 1 / 2 * 2 powi (- s)"
    using near by (intro mult_right_mono) simp_all
  finally show "\<bar>float_value x - real a / real b\<bar> \<le> 2 powi (- s) / 2" by simp
  note ib = ilog2_quot_bounds[OF a b, folded e_def]
  have "real A / real C < 2 powi (e + 1) * 2 powi s"
    unfolding AC using ib(2) by (intro mult_strict_right_mono) simp_all
  also have "\<dots> = 2 powi (e + 1 + s)" by (simp add: power_int_add)
  also have "\<dots> \<le> 2 powi 53" by (intro power_int_increasing) (simp_all add: s)
  finally have "real A / real C < 2 ^ 53" by simp
  then have "real A < real (C * 2 ^ 53)" using rC by (simp add: field_simps)
  then have "A < C * 2 ^ 53" by (simp only: of_nat_less_iff)
  then have m53: "m \<le> 2 ^ 53" unfolding m_def by (intro rne_div_le[OF C0]) simp
  show "significand x < 2 ^ 53"
  proof (cases rule: cases)
    case zero
    then show ?thesis by simp
  next
    case carry
    then show ?thesis by simp
  next
    case plain
    with m53 show ?thesis by simp
  qed
  show "- 1074 \<le> exponent x \<or> x = Float64 0 0"
    by (cases rule: cases) (simp_all add: s)
  show "exponent x \<le> 971"
    by (cases rule: cases) simp_all
  show "2 ^ 52 \<le> significand x \<or> exponent x = - 1074 \<or> x = Float64 0 0"
  proof (cases rule: cases)
    case zero
    then show ?thesis by simp
  next
    case carry
    then show ?thesis by simp
  next
    case plain
    show ?thesis
    proof (cases "s = 1074")
      case True
      with plain show ?thesis by simp
    next
      case False
      with s have se: "s = 52 - e" by (simp add: min_def split: if_splits)
      have "(2::real) ^ 52 = 2 powi (e + s)" by (simp add: se)
      also have "\<dots> = 2 powi e * 2 powi s" by (simp add: power_int_add)
      also have "\<dots> \<le> real A / real C"
        unfolding AC using ib(1) by (intro mult_right_mono) simp_all
      finally have "real (2 ^ 52 * C) \<le> real A" using rC by (simp add: field_simps)
      then have "2 ^ 52 * C \<le> A" by (simp only: of_nat_le_iff)
      then have "2 ^ 52 \<le> m" unfolding m_def by (intro rne_div_ge[OF C0])
      with plain show ?thesis by simp
    qed
  qed
qed

lemma round64_relative_error:
  assumes a: "0 < a" and b: "0 < b" and r: "round64 a b = Some x"
    and n: "2 powi (- 1022) \<le> real a / real b"
  shows "\<bar>float_value x - real a / real b\<bar> \<le> real a / real b / 2 ^ 53"
proof -
  define e where "e = ilog2_quot a b"
  note ib = ilog2_quot_bounds[OF a b, folded e_def]
  from n ib(2) have "(2::real) powi (- 1022) < 2 powi (e + 1)" by (rule le_less_trans)
  moreover have "(2::real) powi (e + 1) \<le> 2 powi (- 1022)" if "e + 1 \<le> - 1022"
    using that by (intro power_int_increasing) simp_all
  ultimately have "- 1022 < e + 1" by fastforce
  then have s: "min (52 - e) 1074 = 52 - e" by simp
  have "\<bar>float_value x - real a / real b\<bar> \<le> 2 powi (- (52 - e)) / 2"
    using round64_result(1)[OF a b r] by (simp only: e_def[symmetric] s)
  also have "- (52 - e) = e + (- 52)" by simp
  also have "(2::real) powi (e + (- 52)) = 2 powi e * 2 powi (- 52)"
    by (rule power_int_add) simp
  also have "2 powi e * 2 powi (- 52) / 2 = 2 powi e / (2::real) ^ 53"
    by (simp add: power_int_minus field_simps)
  also have "\<dots> \<le> real a / real b / 2 ^ 53"
    using ib(1) by (simp add: divide_right_mono)
  finally show ?thesis .
qed

lemma py_float_mul_relative_error:
  assumes z: "py_float_mul x y = Some z"
    and n: "2 powi (- 1022) \<le> float_value x * float_value y"
  shows "\<bar>float_value z - float_value x * float_value y\<bar>
           \<le> float_value x * float_value y / 2 ^ 53"
proof -
  define m where "m = significand x * significand y"
  define e where "e = exponent x + exponent y"
  define P where "P = (if 0 \<le> e then m * 2 ^ nat e else m)"
  define Q where "Q = (if 0 \<le> e then 1 else (2::nat) ^ nat (- e))"
  have v: "float_value x * float_value y = real m * 2 powi e"
    by (simp add: float_value_def m_def e_def power_int_add)
  have PQ: "real P / real Q = float_value x * float_value y"
  proof (cases "0 \<le> e")
    case True
    then have "(2::real) powi e = 2 ^ nat e" by (simp add: power_int_nonneg_exp)
    with True show ?thesis by (simp add: P_def Q_def v)
  next
    case False
    then have "e = - int (nat (- e))" by simp
    then have "(2::real) powi e = 2 powi (- int (nat (- e)))" by simp
    also have "\<dots> = 1 / 2 ^ nat (- e)" by (simp only: power_int_minus_divide power_int_of_nat)
    finally show ?thesis using False by (simp add: P_def Q_def v)
  qed
  have "(0::real) < 2 powi (- 1022)" by simp
  with n[unfolded v] have pos: "0 < real m * 2 powi e" by linarith
  then have "0 < real m" by (simp add: zero_less_mult_iff)
  then have m: "0 < m" by simp
  then have P: "0 < P" by (simp add: P_def)
  have Q: "0 < Q" by (simp add: Q_def)
  have r: "round64 P Q = Some z"
    using z by (auto simp: py_float_mul_def Let_def m_def e_def P_def Q_def split: if_splits)
  from round64_relative_error[OF P Q r] n show ?thesis by (simp only: PQ)
qed

lemma float_value_100: "float_value float_100 = 100"
  by (simp add: float_value_def float_100_def power_int_minus)

lemma percent_accuracy:
  assumes c: "0 < c" and ct: "c \<le> t" and t: "t \<le> 2 ^ 1000"
    and r: "py_truediv c t = Inr ratio" and z: "py_float_mul float_100 ratio = Some z"
  shows "\<bar>float_value z - 100 * real c / real t\<bar> \<le> 100 * real c / real t / 2 ^ 51"
proof -
  define v where "v = real c / real t"
  have t0: "0 < t" using c ct by simp
  have v0: "0 < v" using c t0 by (simp add: v_def)
  have "real t \<le> 2 ^ 1000" using t by (metis of_nat_le_iff of_nat_numeral of_nat_power)
  then have "1 / (2::real) ^ 1000 \<le> 1 / real t" using t0 by (simp add: frac_le)
  also have "\<dots> \<le> v" using c t0 by (simp add: v_def divide_right_mono)
  finally have vl: "1 / 2 ^ 1000 \<le> v" .
  have rr: "round64 c t = Some ratio"
    using r t0 by (simp add: py_truediv_def split: option.splits)
  have "(2::real) powi (- 1022) \<le> 1 / 2 ^ 1000"
    by (simp add: power_int_minus field_simps)
  with vl have "2 powi (- 1022) \<le> v" by simp
  from round64_relative_error[OF c t0 rr this[unfolded v_def]]
  have e1: "\<bar>float_value ratio - v\<bar> \<le> v / 2 ^ 53" by (simp only: v_def)
  moreover have "v / 2 ^ 53 \<le> v / 2" using v0 by (simp add: field_simps)
  ultimately have rl: "v / 2 \<le> float_value ratio" and ru: "float_value ratio \<le> 2 * v"
    using v0 by linarith+
  have "(2::real) powi (- 1022) \<le> 100 * (1 / 2 ^ 1000 / 2)"
    by (simp add: power_int_minus field_simps)
  also have "\<dots> \<le> 100 * (v / 2)" using vl by simp
  also have "\<dots> \<le> 100 * float_value ratio" using rl by simp
  finally have "2 powi (- 1022) \<le> float_value float_100 * float_value ratio"
    by (simp only: float_value_100)
  from py_float_mul_relative_error[OF z this]
  have e2: "\<bar>float_value z - 100 * float_value ratio\<bar> \<le> 100 * float_value ratio / 2 ^ 53"
    by (simp only: float_value_100)
  have "100 * float_value ratio - 100 * v = 100 * (float_value ratio - v)"
    by (simp only: right_diff_distrib)
  then have "\<bar>100 * float_value ratio - 100 * v\<bar> = \<bar>100\<bar> * \<bar>float_value ratio - v\<bar>"
    by (simp only: abs_mult)
  then have "100 * \<bar>float_value ratio - v\<bar> = \<bar>100 * float_value ratio - 100 * v\<bar>"
    by simp
  then have "\<bar>float_value z - 100 * v\<bar>
          \<le> \<bar>float_value z - 100 * float_value ratio\<bar> + 100 * \<bar>float_value ratio - v\<bar>"
    by linarith
  also have "\<dots> \<le> 100 * float_value ratio / 2 ^ 53 + 100 * (v / 2 ^ 53)"
    using e1 e2 by (intro add_mono mult_left_mono) simp_all
  also have "\<dots> \<le> 100 * (2 * v) / 2 ^ 53 + 100 * (v / 2 ^ 53)"
    using ru by (intro add_mono divide_right_mono mult_left_mono) simp_all
  also have "\<dots> \<le> 100 * v / 2 ^ 51" using v0 by (simp add: field_simps)
  finally show ?thesis by (simp add: v_def)
qed

lemma percent_of_nothing:
  assumes "0 < t"
  shows "py_truediv 0 t = Inr (Float64 0 0)"
    and "py_float_mul float_100 (Float64 0 0) = Some (Float64 0 0)"
  using assms by (simp_all add: py_truediv_def round64_def py_float_mul_def float_100_def)

lemma percent_accuracy_all:
  assumes ct: "c \<le> t" and t0: "0 < t" and t: "t \<le> 2 ^ 1000"
    and r: "py_truediv c t = Inr ratio" and z: "py_float_mul float_100 ratio = Some z"
  shows "\<bar>float_value z - 100 * real c / real t\<bar> \<le> 100 * real c / real t / 2 ^ 51"
proof (cases "c = 0")
  case True
  with r z percent_of_nothing[OF t0] have "z = Float64 0 0" by simp
  with True show ?thesis by (simp add: float_value_def)
next
  case False
  then have "0 < c" by simp
  from percent_accuracy[OF this ct t r z] show ?thesis .
qed

section \<open>Evaluation of concrete inputs\<close>

text \<open>
  The rewrite rules with which the simplifier runs the strings, the numbers and the analysis
  on concrete inputs.
\<close>

lemmas str_eval = lit_def py_lower_def py_lower_char_def py_isspace_def py_strip_def
  py_split_def
lemmas num_eval = bit_length_eval py_truediv_def round64_def ilog2_quot_def pow2_le_quot_def
  rne_div_def Let_def py_float_mul_def float_100_def py_int_def numeral_2_eq_2[symmetric]
lemmas prog_eval = python_topic_def ml_topic_def neural_topic_def data_topic_def
  python_keywords_def ml_keywords_def neural_keywords_def data_keywords_def stop_words_def
  set_add_def generic_keywords_def expected_keywords_of_def min_length_def match_score_def
  score_and_verdict_def select_feedback_def no_answer_def analyze_student_answer_def

lemmas topic_eval = no_topic_def python_topic_def ml_topic_def neural_topic_def data_topic_def

text \<open>
  Some values, as Python prints them: \<^verbatim>\<open>1 / 3\<close> is \<^verbatim>\<open>0x1.5555555555555p-2\<close>;
  \<^verbatim>\<open>(1 / 3) * 100\<close> is \<^verbatim>\<open>33.33333333333333\<close>, below the float nearest to
  \<open>100 / 3\<close>; \<^verbatim>\<open>(29 / 100) * 100\<close> is \<^verbatim>\<open>28.999999999999996\<close>, and its \<^verbatim>\<open>int\<close> is 28.
\<close>

lemma float_examples:
  "py_truediv 1 3 = Inr (Float64 6004799503160661 (- 54))"
  "py_float_mul (Float64 6004799503160661 (- 54)) float_100
     = Some (Float64 4691249611844266 (- 47))"
  "round64 100 3 = Some (Float64 4691249611844267 (- 47))"
  "py_truediv 29 100 = Inr (Float64 5224175567749775 (- 54))"
  "py_float_mul (Float64 5224175567749775 (- 54)) float_100
     = Some (Float64 8162774324609023 (- 48))"
  "py_int (Float64 8162774324609023 (- 48)) = 28"
  "round64 100 1 = Some float_100"
  by (simp_all add: num_eval)

text \<open>
  The lists of the four topics have five to seven keywords. For these sizes the score before
  the length penalty is the integer part of the exact percentage. For longer lists, which
  the generic branch can give, the rounding of the quotient shows: 29 of 50 keywords score
  57.
\<close>

lemma match_score_table_sizes:
  assumes "n \<in> {5, 6, 7}" and "k \<le> n"
  shows "match_score k n = Inr (int ((100 * k) div n))"
proof -
  from assms have "k \<in> {0, 1, 2, 3, 4, 5, 6, 7}" by auto
  with assms show ?thesis
    by (elim insertE emptyE; simp add: num_eval match_score_def)
qed

lemma match_score_29_of_50: "match_score 29 50 = Inr 57 \<and> (100 * 29) div 50 = (58::nat)"
  by (simp add: num_eval match_score_def)

lemma match_score_all: "0 < n \<Longrightarrow> match_score n n = Inr 100"
proof -
  assume n: "0 < n"
  have e: "ilog2_quot n n = 0" by (simp add: ilog2_quot_def pow2_le_quot_def)
  have "rne_div (n * 2 ^ 52) n = 2 ^ 52" using n by (simp add: rne_div_def)
  with n e have "round64 n n = Some (Float64 (2 ^ 52) (- 52))"
    by (simp add: round64_def)
  moreover have "py_float_mul (Float64 (2 ^ 52) (- 52)) float_100 = Some float_100"
    by (simp add: num_eval)
  moreover have "py_int float_100 = 100" by (simp add: num_eval)
  ultimately show ?thesis using n by (simp add: match_score_def py_truediv_def)
qed

section \<open>Facts about \<^verbatim>\<open>analyze_student_answer\<close>\<close>

text \<open>
  The two paths of the function: the early return for an empty answer, and the full analysis,
  which always has a score, since the number of matched keywords is at most the number of
  expected keywords.
\<close>

lemma score_and_verdict_cases:
  assumes "k \<le> n"
  shows "\<exists>score. score_and_verdict k n adequate = Inr (score, 60 \<le> score)
            \<and> 0 \<le> score \<and> score \<le> 100"
proof (cases "n = 0")
  case True
  then show ?thesis by (simp add: score_and_verdict_def)
next
  case False
  from match_score_total[OF assms] obtain s where
    "match_score k n = Inr s" "0 \<le> s" "s \<le> 100" by blast
  with False show ?thesis by (simp add: score_and_verdict_def Let_def)
qed

lemma analyze_no_answer:
  assumes "no_answer answer"
  shows "analyze_student_answer question answer lecture_title course_name =
    Inr \<lparr>r_is_correct = False, r_score = 0, r_feedback = feedback_no_answer,
         r_question = question, r_answer = answer,
         r_matched_keywords = None, r_expected_keywords_count = None\<rparr>"
  using assms by (simp add: analyze_student_answer_def)

lemma analyze_answered:
  fixes question answer lecture_title course_name :: py_str
  assumes "\<not> no_answer answer"
  defines "kws \<equiv> expected_keywords_of (py_lower question) (py_lower lecture_title)
                    (py_lower course_name)"
  defines "matches \<equiv> length (filter (\<lambda>keyword. py_in keyword (py_lower answer)) kws)"
  shows "\<exists>score. score_and_verdict matches (length kws) (min_length \<le> length answer)
                    = Inr (score, 60 \<le> score)
            \<and> 0 \<le> score \<and> score \<le> 100
            \<and> analyze_student_answer question answer lecture_title course_name =
                Inr \<lparr>r_is_correct = (60 \<le> score), r_score = score,
                     r_feedback = select_feedback score (min_length \<le> length answer),
                     r_question = question, r_answer = answer,
                     r_matched_keywords = Some matches,
                     r_expected_keywords_count = Some (length kws)\<rparr>"
proof -
  have "matches \<le> length kws" by (simp add: matches_def)
  from score_and_verdict_cases[OF this, of "min_length \<le> length answer"]
  obtain score where
    s: "score_and_verdict matches (length kws) (min_length \<le> length answer)
          = Inr (score, 60 \<le> score)" "0 \<le> score" "score \<le> 100"
    by blast
  have "analyze_student_answer question answer lecture_title course_name =
          Inr \<lparr>r_is_correct = (60 \<le> score), r_score = score,
               r_feedback = select_feedback score (min_length \<le> length answer),
               r_question = question, r_answer = answer,
               r_matched_keywords = Some matches,
               r_expected_keywords_count = Some (length kws)\<rparr>"
    using assms(1) s(1)
    by (simp add: analyze_student_answer_def Let_def kws_def[symmetric] matches_def[symmetric])
  with s show ?thesis by blast
qed

lemma analyze_student_answer_returns:
  "\<exists>r. analyze_student_answer question answer lecture_title course_name = Inr r"
proof (cases "no_answer answer")
  case True
  then show ?thesis by (simp add: analyze_no_answer)
next
  case False
  from analyze_answered[OF False, of question lecture_title course_name]
  show ?thesis by blast
qed

lemma feedback_distinct:
  "feedback_too_brief \<noteq> feedback_excellent" "feedback_too_brief \<noteq> feedback_good"
  "feedback_too_brief \<noteq> feedback_partial" "feedback_too_brief \<noteq> feedback_needs_improvement"
  by (simp_all add: feedback_too_brief_def feedback_excellent_def feedback_good_def
      feedback_partial_def feedback_needs_improvement_def lit_def)

text \<open>A topic whose inner chain matches nothing leaves the keyword list empty.\<close>

lemma python_keywords_empty: "\<not> python_subpattern q \<Longrightarrow> python_keywords q = []"
  by (simp add: python_subpattern_def python_keywords_def)

lemma ml_keywords_empty: "\<not> ml_subpattern q \<Longrightarrow> ml_keywords q = []"
  by (simp add: ml_subpattern_def ml_keywords_def)

lemma neural_keywords_empty: "\<not> neural_subpattern q \<Longrightarrow> neural_keywords q = []"
  by (simp add: neural_subpattern_def neural_keywords_def)

lemma data_keywords_empty: "\<not> data_subpattern q \<Longrightarrow> data_keywords q = []"
  by (simp add: data_subpattern_def data_keywords_def)

lemma topic_without_subpattern_empty:
  "topic_without_subpattern q l c \<Longrightarrow> expected_keywords_of q l c = []"
  by (auto simp: topic_without_subpattern_def expected_keywords_of_def python_keywords_empty
      ml_keywords_empty neural_keywords_empty data_keywords_empty split: if_splits)

text \<open>The generic branch collects a set: the terms kept, without repetitions.\<close>

lemma set_set_add: "set (set_add t ks) = insert t (set ks)"
  by (auto simp: set_add_def)

lemma distinct_set_add: "distinct ks \<Longrightarrow> distinct (set_add t ks)"
  by (simp add: set_add_def)

lemma set_fold_set_add:
  "set (fold (\<lambda>t ks. if P t then set_add t ks else ks) xs acc)
     = set acc \<union> {t \<in> set xs. P t}"
  by (induction xs arbitrary: acc) (auto simp: set_set_add)

lemma distinct_fold_set_add:
  "distinct acc \<Longrightarrow> distinct (fold (\<lambda>t ks. if P t then set_add t ks else ks) xs acc)"
  by (induction xs arbitrary: acc) (simp_all add: distinct_set_add)

lemma set_generic_keywords:
  "set (generic_keywords l q) =
     {t \<in> set (py_split l). 3 < length t}
     \<union> {t \<in> set (py_split q). 3 < length t \<and> t \<notin> set stop_words}"
  by (simp add: generic_keywords_def Let_def set_fold_set_add)

lemma distinct_generic_keywords: "distinct (generic_keywords l q)"
  by (simp add: generic_keywords_def Let_def distinct_fold_set_add)

section \<open>Facts about \<^verbatim>\<open>analyze_answers\<close>\<close>

text \<open>
  No call of the loop raises, and the overall score is computed without an exception, so
  the \<^verbatim>\<open>except\<close> branch is never taken once the lengths agree.
\<close>

lemma analyze_echo:
  assumes "analyze_student_answer question answer lecture_title course_name = Inr r"
  shows "r_question r = question \<and> r_answer r = answer"
proof (cases "no_answer answer")
  case True
  with assms show ?thesis by (auto simp: analyze_no_answer)
next
  case False
  from analyze_answered[OF False, of question lecture_title course_name] assms
  show ?thesis by auto
qed

lemma analyze_pairs_returns:
  "\<exists>results. analyze_pairs ps lecture_title course_name = Inr results
      \<and> map Inr results =
          map (\<lambda>(question, answer).
                 analyze_student_answer question answer lecture_title course_name) ps
      \<and> map r_question results = map fst ps \<and> map r_answer results = map snd ps"
proof (induction ps)
  case Nil
  show ?case by simp
next
  case (Cons p ps)
  obtain question answer where p: "p = (question, answer)" by (cases p)
  from analyze_student_answer_returns obtain r where
    r: "analyze_student_answer question answer lecture_title course_name = Inr r" by blast
  from analyze_echo[OF r] have e: "r_question r = question" "r_answer r = answer" by simp_all
  from Cons.IH obtain results where
    rs: "analyze_pairs ps lecture_title course_name = Inr results"
        "map Inr results =
          map (\<lambda>(question, answer).
                 analyze_student_answer question answer lecture_title course_name) ps"
        "map r_question results = map fst ps" "map r_answer results = map snd ps"
    by blast
  from p r e rs show ?case by simp
qed

lemma renders_iff:
  "renders results =
     (list_all utf8_encodable (map r_question results)
      \<and> list_all utf8_encodable (map r_answer results))"
  by (induction results) (auto simp: renders_def)

lemma overall_score_of_returns:
  assumes "c \<le> t"
  shows "(t = 0 \<and> overall_score_of c t = Inr (PyInt 0))
       \<or> (0 < t \<and> (\<exists>ratio x. py_truediv c t = Inr ratio
                        \<and> py_float_mul float_100 ratio = Some x
                        \<and> overall_score_of c t = Inr (PyFloat x)
                        \<and> (t \<le> 2 ^ 1000 \<longrightarrow>
                             \<bar>float_value x - 100 * real c / real t\<bar>
                               \<le> 100 * real c / real t / 2 ^ 51)))"
proof (cases "t = 0")
  case True
  then show ?thesis by (simp add: overall_score_of_def)
next
  case False
  then have t: "0 < t" by simp
  from ratio_percent_finite[OF t assms] obtain ratio x where
    rx: "py_truediv c t = Inr ratio" "py_float_mul ratio float_100 = Some x" by blast
  then have x: "py_float_mul float_100 ratio = Some x"
    by (simp only: py_float_mul_commute[of float_100])
  have "\<bar>float_value x - 100 * real c / real t\<bar> \<le> 100 * real c / real t / 2 ^ 51"
    if "t \<le> 2 ^ 1000"
    using percent_accuracy_all[OF assms t that rx(1) x] .
  moreover have "overall_score_of c t = Inr (PyFloat x)"
    using t rx by (simp add: overall_score_of_def)
  ultimately show ?thesis using t rx(1) x by blast
qed

text \<open>
  A request with two pairs, run to the end: the first answer is correct, the second is not,
  and the overall score is the float \<open>50.0\<close>.
\<close>

lemma batch_example:
  "analyze_answers \<lparr>req_lecture_title = lit ''Intro'', req_course_name = lit ''CS101'',
       req_questions = map lit [''Why is Python fun?'', ''Why is Python popular?''],
       req_answers = map lit [''          It is a language that many people like to use'',
                              ''idk'']\<rparr> =
     \<lparr>resp_status_code = 200, resp_status = lit ''success'', resp_message = None,
      resp_overall_score = Some (PyFloat (Float64 (50 * 2 ^ 47) (- 47))),
      resp_results =
        [\<lparr>r_is_correct = True, r_score = 70, r_feedback = feedback_good,
          r_question = lit ''Why is Python fun?'',
          r_answer = lit ''          It is a language that many people like to use'',
          r_matched_keywords = Some 0, r_expected_keywords_count = Some 0\<rparr>,
         \<lparr>r_is_correct = False, r_score = 0, r_feedback = feedback_too_brief,
          r_question = lit ''Why is Python popular?'', r_answer = lit ''idk'',
          r_matched_keywords = Some 0, r_expected_keywords_count = Some 6\<rparr>]\<rparr>"
  by (simp add: str_eval num_eval prog_eval analyze_answers_def overall_score_of_def
      renders_def utf8_encodable_def)

section \<open>The claims\<close>

text \<open>
  Claim C1, as amended. For every answer that is not empty or whitespace-only and every
  non-empty list of expected keywords, the score is \<^verbatim>\<open>min(100, max(0, int(match_ratio *
  100)))\<close>, where \<^verbatim>\<open>match_ratio\<close> is the float quotient of the number of matched keywords
  by the number of expected keywords and \<^verbatim>\<open>int\<close> cuts off the fraction of the float
  product (it does not round to the nearest integer; the product is within \<open>2 ^ - 51\<close>,
  relatively, of the exact percentage); 30 is subtracted, not below 0, when
  \<^verbatim>\<open>len(answer) < 50\<close>; and \<^verbatim>\<open>is_correct\<close> holds exactly when the resulting score is at
  least 60.
\<close>

theorem keyword_score:
  fixes question answer lecture_title course_name :: py_str
  defines "kws \<equiv> expected_keywords_of (py_lower question) (py_lower lecture_title)
                    (py_lower course_name)"
  defines "matches \<equiv> length (filter (\<lambda>keyword. py_in keyword (py_lower answer)) kws)"
  assumes "\<not> no_answer answer" and "kws \<noteq> []"
  shows "\<exists>r match_ratio p.
           analyze_student_answer question answer lecture_title course_name = Inr r
         \<and> r_matched_keywords r = Some matches
         \<and> r_expected_keywords_count r = Some (length kws)
         \<and> py_truediv matches (length kws) = Inr match_ratio
         \<and> py_float_mul match_ratio float_100 = Some p
         \<and> (length kws \<le> 2 ^ 1000 \<longrightarrow>
              \<bar>float_value p - 100 * real matches / real (length kws)\<bar>
                \<le> 100 * real matches / real (length kws) / 2 ^ 51)
         \<and> r_score r = (if min_length \<le> length answer then min 100 (max 0 (py_int p))
                         else max 0 (min 100 (max 0 (py_int p)) - 30))
         \<and> r_is_correct r = (60 \<le> r_score r)"
proof -
  have n: "0 < length kws" using assms(4) by simp
  have le: "matches \<le> length kws" by (simp add: matches_def)
  from ratio_percent_finite[OF n this] obtain match_ratio p where
    mp: "py_truediv matches (length kws) = Inr match_ratio"
        "py_float_mul match_ratio float_100 = Some p"
    by blast
  from mp(2) have pc: "py_float_mul float_100 match_ratio = Some p"
    by (simp only: py_float_mul_commute[of float_100])
  have acc: "\<bar>float_value p - 100 * real matches / real (length kws)\<bar>
               \<le> 100 * real matches / real (length kws) / 2 ^ 51"
    if "length kws \<le> 2 ^ 1000"
    using percent_accuracy_all[OF le n that mp(1) pc] .
  from analyze_answered[OF assms(3), of question lecture_title course_name]
  obtain score where
    sc: "score_and_verdict matches (length kws) (min_length \<le> length answer)
           = Inr (score, 60 \<le> score)"
    and r: "analyze_student_answer question answer lecture_title course_name =
              Inr \<lparr>r_is_correct = (60 \<le> score), r_score = score,
                   r_feedback = select_feedback score (min_length \<le> length answer),
                   r_question = question, r_answer = answer,
                   r_matched_keywords = Some matches,
                   r_expected_keywords_count = Some (length kws)\<rparr>"
    unfolding kws_def matches_def by blast
  from sc mp n have
    "score = (if min_length \<le> length answer then min 100 (max 0 (py_int p))
              else max 0 (min 100 (max 0 (py_int p)) - 30))"
    by (simp add: score_and_verdict_def match_score_def Let_def split: if_splits)
  with r mp acc show ?thesis by simp
qed

theorem keyword_score_witness:
  "\<not> no_answer (lit ''Machine learning uses data and algorithms to learn patterns instead of explicit programming rules.'')
   \<and> expected_keywords_of
        (py_lower (lit ''What is machine learning and how does it differ from traditional programming?''))
        (py_lower (lit ''Intro to ML'')) (py_lower (lit ''CS101'')) \<noteq> []
   \<and> (\<exists>r match_ratio p.
           analyze_student_answer
             (lit ''What is machine learning and how does it differ from traditional programming?'')
             (lit ''Machine learning uses data and algorithms to learn patterns instead of explicit programming rules.'')
             (lit ''Intro to ML'') (lit ''CS101'') = Inr r
         \<and> r_score r = (if min_length \<le> length (lit ''Machine learning uses data and algorithms to learn patterns instead of explicit programming rules.'')
                         then min 100 (max 0 (py_int p))
                         else max 0 (min 100 (max 0 (py_int p)) - 30))
         \<and> r_is_correct r = (60 \<le> r_score r))"
proof -
  have h1: "\<not> no_answer (lit ''Machine learning uses data and algorithms to learn patterns instead of explicit programming rules.'')"
    by (simp add: no_answer_def str_eval)
  have h2: "expected_keywords_of
        (py_lower (lit ''What is machine learning and how does it differ from traditional programming?''))
        (py_lower (lit ''Intro to ML'')) (py_lower (lit ''CS101'')) \<noteq> []"
    by (simp add: str_eval expected_keywords_of_def python_topic_def ml_topic_def ml_keywords_def)
  from keyword_score[OF h1 h2] h1 h2 show ?thesis by blast
qed

text \<open>
  The claim as written rounds: for one matched keyword of six, and an answer of 58
  characters, it gives 17, and the code gives 16.
\<close>

theorem keyword_score_counterexample:
  "analyze_student_answer
     (lit ''What is machine learning and how does it differ from traditional programming?'')
     (lit ''It looks at data and then it produces some kind of result.'') (lit ''Intro to ML'') (lit ''CS101'') =
     Inr \<lparr>r_is_correct = False, r_score = 16, r_feedback = feedback_needs_improvement,
          r_question =
            lit ''What is machine learning and how does it differ from traditional programming?'',
          r_answer = lit ''It looks at data and then it produces some kind of result.'',
          r_matched_keywords = Some 1, r_expected_keywords_count = Some 6\<rparr>
   \<and> spec_score 1 6
        (spec_length_adequate (lit ''It looks at data and then it produces some kind of result.''))
       = 17"
  by (simp add: str_eval num_eval prog_eval spec_length_adequate_def spec_score_def
      spec_round_def)

text \<open>
  Claim C2, as amended. For every answer that is not empty or whitespace-only, the length
  test is made on the answer as it was sent, not on the trimmed answer: the answer counts as
  too brief, and gets the "too brief" feedback, exactly when \<^verbatim>\<open>len(answer) < 50\<close>.
\<close>

theorem length_adequacy_untrimmed:
  assumes "\<not> no_answer answer"
  shows "\<exists>r. analyze_student_answer question answer lecture_title course_name = Inr r
           \<and> (r_feedback r = feedback_too_brief) = (length answer < 50)"
proof -
  from analyze_answered[OF assms, of question lecture_title course_name]
  show ?thesis by (auto simp: select_feedback_def min_length_def feedback_distinct feedback_distinct[symmetric])
qed

theorem length_adequacy_untrimmed_witness:
  "\<not> no_answer (lit ''          It is a language that many people like to use'') \<and>
   (\<exists>r. analyze_student_answer (lit ''Why is Python fun?'')
           (lit ''          It is a language that many people like to use'') (lit ''Intro'') (lit ''CS101'') = Inr r
      \<and> (r_feedback r = feedback_too_brief)
          = (length (lit ''          It is a language that many people like to use'') < 50))"
proof -
  have h: "\<not> no_answer (lit ''          It is a language that many people like to use'')"
    by (simp add: no_answer_def str_eval)
  from length_adequacy_untrimmed[OF h, of "(lit ''Why is Python fun?'')" "(lit ''Intro'')" "(lit ''CS101'')"] h
  show ?thesis by blast
qed

text \<open>
  An answer of 55 characters, ten of them leading spaces: trimmed it has 45 characters, and
  the code takes it as long enough (score 70, correct, no "too brief" feedback).
\<close>

theorem length_adequacy_counterexample:
  "analyze_student_answer (lit ''Why is Python fun?'')
     (lit ''          It is a language that many people like to use'') (lit ''Intro'') (lit ''CS101'') =
     Inr \<lparr>r_is_correct = True, r_score = 70, r_feedback = feedback_good,
          r_question = lit ''Why is Python fun?'',
          r_answer = lit ''          It is a language that many people like to use'',
          r_matched_keywords = Some 0, r_expected_keywords_count = Some 0\<rparr>
   \<and> \<not> spec_length_adequate (lit ''          It is a language that many people like to use'')"
  by (simp add: str_eval num_eval prog_eval spec_length_adequate_def)

text \<open>
  Claim C3, as amended. For every question, lecture title and course name, if the answer is
  empty or whitespace-only, \<^verbatim>\<open>analyze_student_answer\<close> returns at once a result with score
  0, \<^verbatim>\<open>is_correct\<close> false, the "No answer provided" feedback and the question and answer as
  sent; the result has no count of matched keywords and no count of expected keywords, and
  depends on nothing else.
\<close>

theorem no_answer_short_circuit:
  assumes "answer = [] \<or> py_strip answer = []"
  shows "analyze_student_answer question answer lecture_title course_name =
    Inr \<lparr>r_is_correct = False, r_score = 0, r_feedback = feedback_no_answer,
         r_question = question, r_answer = answer,
         r_matched_keywords = None, r_expected_keywords_count = None\<rparr>"
  using assms by (simp add: analyze_no_answer no_answer_def)

theorem no_answer_short_circuit_witness:
  "((lit ''   '') = [] \<or> py_strip (lit ''   '') = []) \<and>
   analyze_student_answer (lit ''What is python?'') (lit ''   '') (lit ''Intro'') (lit ''CS101'') =
    Inr \<lparr>r_is_correct = False, r_score = 0, r_feedback = feedback_no_answer,
         r_question = lit ''What is python?'', r_answer = lit ''   '',
         r_matched_keywords = None, r_expected_keywords_count = None\<rparr>"
proof -
  have h: "(lit ''   '') = [] \<or> py_strip (lit ''   '') = []" by (simp add: str_eval)
  from no_answer_short_circuit[OF h] h show ?thesis by blast
qed

text \<open>
  The claim as written gives the early result a matched-keyword count of 0; the dict of the
  early return has no such key.
\<close>

theorem no_answer_counts_counterexample:
  "analyze_student_answer (lit ''What is python?'') [] (lit ''Intro'') (lit ''CS101'') =
    Inr \<lparr>r_is_correct = False, r_score = 0, r_feedback = feedback_no_answer,
         r_question = lit ''What is python?'', r_answer = [],
         r_matched_keywords = None, r_expected_keywords_count = None\<rparr>
   \<and> r_matched_keywords \<lparr>r_is_correct = False, r_score = 0, r_feedback = feedback_no_answer,
         r_question = lit ''What is python?'', r_answer = [],
         r_matched_keywords = None, r_expected_keywords_count = None\<rparr> \<noteq> Some 0"
  by (simp add: analyze_student_answer_def no_answer_def)

text \<open>
  Claim C4, as amended. For every input whose answer is not empty or whitespace-only, if one
  of the four topics is taken and none of the inner conditions of that topic matches the
  question, the list of expected keywords is empty (the generic extraction is not used), and
  the score is 70 with \<^verbatim>\<open>is_correct\<close> true when \<^verbatim>\<open>len(answer) >= 50\<close>, else 30 with
  \<^verbatim>\<open>is_correct\<close> false.
\<close>

theorem topic_without_subpattern_score:
  assumes "\<not> no_answer answer"
    and "topic_without_subpattern (py_lower question) (py_lower lecture_title)
           (py_lower course_name)"
  shows "expected_keywords_of (py_lower question) (py_lower lecture_title)
           (py_lower course_name) = []
       \<and> analyze_student_answer question answer lecture_title course_name =
           Inr \<lparr>r_is_correct = (min_length \<le> length answer),
                r_score = (if min_length \<le> length answer then 70 else 30),
                r_feedback = (if min_length \<le> length answer then feedback_good
                              else feedback_too_brief),
                r_question = question, r_answer = answer,
                r_matched_keywords = Some 0, r_expected_keywords_count = Some 0\<rparr>"
proof -
  have e: "expected_keywords_of (py_lower question) (py_lower lecture_title)
             (py_lower course_name) = []"
    using assms(2) by (rule topic_without_subpattern_empty)
  with assms(1) show ?thesis
    by (simp add: analyze_student_answer_def Let_def score_and_verdict_def select_feedback_def)
qed

theorem topic_without_subpattern_score_witness:
  "\<not> no_answer (lit ''It is fun'') \<and>
   topic_without_subpattern (py_lower (lit ''Why is Python fun?'')) (py_lower (lit ''Intro''))
     (py_lower (lit ''CS101'')) \<and>
   expected_keywords_of (py_lower (lit ''Why is Python fun?'')) (py_lower (lit ''Intro''))
     (py_lower (lit ''CS101'')) = [] \<and>
   analyze_student_answer (lit ''Why is Python fun?'') (lit ''It is fun'') (lit ''Intro'') (lit ''CS101'') =
     Inr \<lparr>r_is_correct = (min_length \<le> length (lit ''It is fun'')),
          r_score = (if min_length \<le> length (lit ''It is fun'') then 70 else 30),
          r_feedback = (if min_length \<le> length (lit ''It is fun'') then feedback_good
                        else feedback_too_brief),
          r_question = lit ''Why is Python fun?'', r_answer = lit ''It is fun'',
          r_matched_keywords = Some 0, r_expected_keywords_count = Some 0\<rparr>"
proof -
  have h1: "\<not> no_answer (lit ''It is fun'')"
    by (simp add: no_answer_def str_eval)
  have h2: "topic_without_subpattern (py_lower (lit ''Why is Python fun?'')) (py_lower (lit ''Intro''))
     (py_lower (lit ''CS101''))"
    by (simp add: topic_without_subpattern_def python_topic_def python_subpattern_def str_eval)
  from topic_without_subpattern_score[OF h1 h2] h1 h2 show ?thesis by blast
qed

text \<open>
  The claim as written covers every input. With an empty answer the early return comes
  first: the score is 0, not 30.
\<close>

theorem topic_without_subpattern_counterexample:
  "topic_without_subpattern (py_lower (lit ''Why is Python fun?'')) (py_lower (lit ''Intro''))
     (py_lower (lit ''CS101''))
   \<and> analyze_student_answer (lit ''Why is Python fun?'') [] (lit ''Intro'') (lit ''CS101'') =
     Inr \<lparr>r_is_correct = False, r_score = 0, r_feedback = feedback_no_answer,
          r_question = lit ''Why is Python fun?'', r_answer = [],
          r_matched_keywords = None, r_expected_keywords_count = None\<rparr>
   \<and> r_score \<lparr>r_is_correct = False, r_score = 0, r_feedback = feedback_no_answer,
          r_question = lit ''Why is Python fun?'', r_answer = [],
          r_matched_keywords = None, r_expected_keywords_count = None\<rparr> \<noteq> 30"
  by (simp add: topic_without_subpattern_def python_topic_def python_subpattern_def str_eval
      analyze_student_answer_def no_answer_def)

text \<open>
  Claim C5, as amended. For every request whose lists of questions and answers have the same
  length and hold no string with a surrogate, \<^verbatim>\<open>analyze_answers\<close> answers with status 200
  and one result for each pair of a question and the answer at the same position, in the
  order of the input; the overall score is 0 when there is no pair, and else the float
  product of 100 and the float quotient of the number of results with \<^verbatim>\<open>is_correct\<close> by the
  number of results: a float within \<open>2 ^ - 51\<close>, relatively, of the exact percentage, and not
  always the exact percentage or the float nearest to it.
\<close>

theorem batch_results_and_overall_score:
  assumes "length (req_questions request) = length (req_answers request)"
    and "list_all utf8_encodable (req_questions request)"
    and "list_all utf8_encodable (req_answers request)"
  shows "\<exists>results overall.
           analyze_answers request =
             \<lparr>resp_status_code = 200, resp_status = lit ''success'', resp_message = None,
              resp_overall_score = Some overall, resp_results = results\<rparr>
         \<and> length results = length (req_questions request)
         \<and> map Inr results =
             map2 (\<lambda>question answer.
                     analyze_student_answer question answer (req_lecture_title request)
                       (req_course_name request))
               (req_questions request) (req_answers request)
         \<and> ((length results = 0 \<and> overall = PyInt 0)
            \<or> (0 < length results
               \<and> (\<exists>ratio x.
                     py_truediv (length (filter r_is_correct results)) (length results)
                       = Inr ratio
                   \<and> py_float_mul float_100 ratio = Some x
                   \<and> overall = PyFloat x
                   \<and> (length results \<le> 2 ^ 1000 \<longrightarrow>
                        \<bar>float_value x
                           - 100 * real (length (filter r_is_correct results))
                               / real (length results)\<bar>
                          \<le> 100 * real (length (filter r_is_correct results))
                               / real (length results) / 2 ^ 51))))"
proof -
  from analyze_pairs_returns obtain results where
    rs: "analyze_pairs (zip (req_questions request) (req_answers request))
           (req_lecture_title request) (req_course_name request) = Inr results"
        "map Inr results =
           map2 (\<lambda>question answer.
                   analyze_student_answer question answer (req_lecture_title request)
                     (req_course_name request))
             (req_questions request) (req_answers request)"
        "map r_question results = map fst (zip (req_questions request) (req_answers request))"
        "map r_answer results = map snd (zip (req_questions request) (req_answers request))"
    by blast
  from rs(2) have "length (map Inr results :: (py_error + analysis) list) =
      length (zip (req_questions request) (req_answers request))"
    by simp
  with assms(1) have len: "length results = length (req_questions request)" by simp
  from rs(3,4) assms(1) have "map r_question results = req_questions request"
    and "map r_answer results = req_answers request"
    by simp_all
  with assms(2,3) have ren: "renders results" by (simp add: renders_iff)
  have "length (filter r_is_correct results) \<le> length results" by simp
  from overall_score_of_returns[OF this] obtain overall where
    ov: "overall_score_of (length (filter r_is_correct results)) (length results) = Inr overall"
        "(length results = 0 \<and> overall = PyInt 0)
            \<or> (0 < length results
               \<and> (\<exists>ratio x.
                     py_truediv (length (filter r_is_correct results)) (length results)
                       = Inr ratio
                   \<and> py_float_mul float_100 ratio = Some x
                   \<and> overall = PyFloat x
                   \<and> (length results \<le> 2 ^ 1000 \<longrightarrow>
                        \<bar>float_value x
                           - 100 * real (length (filter r_is_correct results))
                               / real (length results)\<bar>
                          \<le> 100 * real (length (filter r_is_correct results))
                               / real (length results) / 2 ^ 51)))"
    by blast
  from assms(1) rs(1) ov(1) ren have "analyze_answers request =
             \<lparr>resp_status_code = 200, resp_status = lit ''success'', resp_message = None,
              resp_overall_score = Some overall, resp_results = results\<rparr>"
    by (simp add: analyze_answers_def Let_def)
  with len rs(2) ov(2) show ?thesis by blast
qed

theorem batch_results_and_overall_score_witness:
  "length (req_questions \<lparr>req_lecture_title = lit ''Intro'', req_course_name = lit ''CS101'',
                          req_questions = map lit [''Why is Python fun?'', ''What is a loop?''],
                          req_answers = [lit ''It is fun'', []]\<rparr>)
     = length (req_answers \<lparr>req_lecture_title = lit ''Intro'', req_course_name = lit ''CS101'',
                          req_questions = map lit [''Why is Python fun?'', ''What is a loop?''],
                          req_answers = [lit ''It is fun'', []]\<rparr>)
   \<and> list_all utf8_encodable (map lit [''Why is Python fun?'', ''What is a loop?''])
   \<and> list_all utf8_encodable [lit ''It is fun'', []]
   \<and> (\<exists>results overall.
         analyze_answers \<lparr>req_lecture_title = lit ''Intro'', req_course_name = lit ''CS101'',
                          req_questions = map lit [''Why is Python fun?'', ''What is a loop?''],
                          req_answers = [lit ''It is fun'', []]\<rparr> =
             \<lparr>resp_status_code = 200, resp_status = lit ''success'', resp_message = None,
              resp_overall_score = Some overall, resp_results = results\<rparr>
         \<and> length results = 2)"
proof -
  have h1: "length (req_questions \<lparr>req_lecture_title = lit ''Intro'', req_course_name = lit ''CS101'',
                          req_questions = map lit [''Why is Python fun?'', ''What is a loop?''],
                          req_answers = [lit ''It is fun'', []]\<rparr>)
     = length (req_answers \<lparr>req_lecture_title = lit ''Intro'', req_course_name = lit ''CS101'',
                          req_questions = map lit [''Why is Python fun?'', ''What is a loop?''],
                          req_answers = [lit ''It is fun'', []]\<rparr>)"
    by simp
  have h2: "list_all utf8_encodable (map lit [''Why is Python fun?'', ''What is a loop?''])"
    by (simp add: utf8_encodable_def lit_def)
  have h3: "list_all utf8_encodable [lit ''It is fun'', []]"
    by (simp add: utf8_encodable_def lit_def)
  from batch_results_and_overall_score[of "\<lparr>req_lecture_title = lit ''Intro'',
      req_course_name = lit ''CS101'',
      req_questions = map lit [''Why is Python fun?'', ''What is a loop?''],
      req_answers = [lit ''It is fun'', []]\<rparr>"] h2 h3
  show ?thesis by auto
qed

text \<open>
  The claim as written covers every request with lists of equal length and gives the exact
  percentage. An answer that is the one surrogate \<open>0xD800\<close> is analysed, but the response
  with the results cannot be encoded: the service answers with status 500 and no result.
  And with one correct answer of three the overall score is the float
  \<^verbatim>\<open>33.33333333333333\<close>, which is below \<open>100 / 3\<close> and is not the float nearest to it.
\<close>

theorem batch_results_counterexample:
  "analyze_answers \<lparr>req_lecture_title = lit ''Intro'', req_course_name = lit ''CS101'',
                    req_questions = [lit ''Why is Python fun?''],
                    req_answers = [[55296]]\<rparr> =
     \<lparr>resp_status_code = 500, resp_status = lit ''error'',
      resp_message = Some (Failed_to_analyze UnicodeEncodeError),
      resp_overall_score = None, resp_results = []\<rparr>
   \<and> analyze_answers \<lparr>req_lecture_title = lit ''Intro'', req_course_name = lit ''CS101'',
        req_questions = map lit [''Why is Python fun?'', ''Why is Python fun?'',
                         ''Why is Python fun?''],
        req_answers = map lit [''It is a language that many people like to use a lot'',
                       ''idk'', ''idk'']\<rparr> =
     \<lparr>resp_status_code = 200, resp_status = lit ''success'', resp_message = None,
      resp_overall_score = Some (PyFloat (Float64 4691249611844266 (- 47))),
      resp_results =
        [\<lparr>r_is_correct = True, r_score = 70, r_feedback = feedback_good,
          r_question = lit ''Why is Python fun?'',
          r_answer = lit ''It is a language that many people like to use a lot'',
          r_matched_keywords = Some 0, r_expected_keywords_count = Some 0\<rparr>,
         \<lparr>r_is_correct = False, r_score = 30, r_feedback = feedback_too_brief,
          r_question = lit ''Why is Python fun?'', r_answer = lit ''idk'',
          r_matched_keywords = Some 0, r_expected_keywords_count = Some 0\<rparr>,
         \<lparr>r_is_correct = False, r_score = 30, r_feedback = feedback_too_brief,
          r_question = lit ''Why is Python fun?'', r_answer = lit ''idk'',
          r_matched_keywords = Some 0, r_expected_keywords_count = Some 0\<rparr>]\<rparr>
   \<and> float_value (Float64 4691249611844266 (- 47)) < 100 * 1 / 3
   \<and> round64 (100 * 1) 3 = Some (Float64 4691249611844267 (- 47))"
  by (simp add: str_eval num_eval prog_eval analyze_answers_def overall_score_of_def
      renders_def utf8_encodable_def failure_response_def float_value_def power_int_minus)

text \<open>
  Claim C6. For every request whose lists of questions and answers have different lengths,
  \<^verbatim>\<open>analyze_answers\<close> answers with status 400, an error message and an empty list of
  results; no answer is analysed.
\<close>

theorem mismatched_lengths_rejected:
  assumes "length (req_questions request) \<noteq> length (req_answers request)"
  shows "analyze_answers request =
           \<lparr>resp_status_code = 400, resp_status = lit ''error'',
            resp_message = Some (Text (lit ''Number of questions and answers must match'')),
            resp_overall_score = None, resp_results = []\<rparr>"
  using assms by (simp add: analyze_answers_def)

theorem mismatched_lengths_rejected_witness:
  "length (req_questions \<lparr>req_lecture_title = lit ''Intro'', req_course_name = lit ''CS101'',
                          req_questions = map lit [''q1'', ''q2''], req_answers = [lit ''a1'']\<rparr>)
     \<noteq> length (req_answers \<lparr>req_lecture_title = lit ''Intro'', req_course_name = lit ''CS101'',
                          req_questions = map lit [''q1'', ''q2''], req_answers = [lit ''a1'']\<rparr>)
   \<and> analyze_answers \<lparr>req_lecture_title = lit ''Intro'', req_course_name = lit ''CS101'',
                       req_questions = map lit [''q1'', ''q2''], req_answers = [lit ''a1'']\<rparr> =
           \<lparr>resp_status_code = 400, resp_status = lit ''error'',
            resp_message = Some (Text (lit ''Number of questions and answers must match'')),
            resp_overall_score = None, resp_results = []\<rparr>"
proof -
  have h: "length (req_questions \<lparr>req_lecture_title = lit ''Intro'', req_course_name = lit ''CS101'',
                          req_questions = map lit [''q1'', ''q2''], req_answers = [lit ''a1'']\<rparr>)
     \<noteq> length (req_answers \<lparr>req_lecture_title = lit ''Intro'', req_course_name = lit ''CS101'',
                          req_questions = map lit [''q1'', ''q2''], req_answers = [lit ''a1'']\<rparr>)"
    by simp
  from mismatched_lengths_rejected[OF h] h show ?thesis by blast
qed

text \<open>
  Claim C7, as amended. When no topic is taken, the expected keywords are, without
  repetitions, the whitespace-separated tokens of the lowercased lecture title that are
  longer than 3 characters, together with the tokens of the lowercased question that are
  longer than 3 characters and not in the stop-word list. The stop-word list filters the
  tokens of the question only.
\<close>

theorem generic_keyword_set:
  assumes "no_topic (py_lower question) (py_lower lecture_title) (py_lower course_name)"
  shows "set (expected_keywords_of (py_lower question) (py_lower lecture_title)
                (py_lower course_name)) =
           {t \<in> set (py_split (py_lower lecture_title)). 3 < length t}
           \<union> {t \<in> set (py_split (py_lower question)). 3 < length t \<and> t \<notin> set stop_words}
       \<and> distinct (expected_keywords_of (py_lower question) (py_lower lecture_title)
                      (py_lower course_name))"
proof -
  have "expected_keywords_of (py_lower question) (py_lower lecture_title)
          (py_lower course_name) = generic_keywords (py_lower lecture_title) (py_lower question)"
    using assms by (simp add: no_topic_def expected_keywords_of_def)
  then show ?thesis by (simp only: set_generic_keywords distinct_generic_keywords simp_thms)
qed

theorem generic_keyword_set_witness:
  "no_topic (py_lower (lit ''Explain recursion briefly'')) (py_lower (lit ''What Those Loops Mean''))
     (py_lower (lit ''CS101''))
   \<and> set (expected_keywords_of (py_lower (lit ''Explain recursion briefly''))
             (py_lower (lit ''What Those Loops Mean'')) (py_lower (lit ''CS101''))) =
           {t \<in> set (py_split (py_lower (lit ''What Those Loops Mean''))). 3 < length t}
           \<union> {t \<in> set (py_split (py_lower (lit ''Explain recursion briefly''))).
                3 < length t \<and> t \<notin> set stop_words}
   \<and> distinct (expected_keywords_of (py_lower (lit ''Explain recursion briefly''))
             (py_lower (lit ''What Those Loops Mean'')) (py_lower (lit ''CS101'')))"
proof -
  have h: "no_topic (py_lower (lit ''Explain recursion briefly'')) (py_lower (lit ''What Those Loops Mean''))
     (py_lower (lit ''CS101''))"
    by (simp add: str_eval topic_eval)
  from generic_keyword_set[OF h] h show ?thesis by blast
qed

text \<open>
  The claim as written filters the tokens of the lecture title by the stop-word list too.
  For the lecture title "What Those Loops Mean" the code keeps "what" and "those".
\<close>

theorem generic_keyword_set_counterexample:
  "no_topic (py_lower (lit ''Explain recursion briefly'')) (py_lower (lit ''What Those Loops Mean''))
     (py_lower (lit ''CS101''))
   \<and> expected_keywords_of (py_lower (lit ''Explain recursion briefly''))
        (py_lower (lit ''What Those Loops Mean'')) (py_lower (lit ''CS101''))
       = map lit [''what'', ''those'', ''loops'', ''mean'', ''recursion'', ''briefly'']
   \<and> spec_generic_keywords (py_lower (lit ''What Those Loops Mean''))
        (py_lower (lit ''Explain recursion briefly''))
       = {(lit ''loops''), lit ''mean'', lit ''recursion'', (lit ''briefly'')}
   \<and> (lit ''what'') \<notin> spec_generic_keywords (py_lower (lit ''What Those Loops Mean''))
        (py_lower (lit ''Explain recursion briefly''))"
  by (simp add: str_eval topic_eval expected_keywords_of_def generic_keywords_def set_add_def
      stop_words_def spec_generic_keywords_def Let_def)

text \<open>
  Claim C8, as amended. For every answer that is not empty or whitespace-only, the feedback
  is fixed by the score and the length test of the code, \<^verbatim>\<open>len(answer) >= 50\<close> on the answer
  as it was sent, by the first rule that applies: an answer shorter than 50 characters gets
  the "too brief" message whatever the score; otherwise a score of at least 90 gets
  "excellent", of at least 70 "good", of at least 50 "partial", and a lower one "needs
  improvement".
\<close>

theorem feedback_selection:
  assumes "\<not> no_answer answer"
  shows "\<exists>r. analyze_student_answer question answer lecture_title course_name = Inr r
           \<and> r_feedback r =
               (if \<not> min_length \<le> length answer then feedback_too_brief
                else if 90 \<le> r_score r then feedback_excellent
                else if 70 \<le> r_score r then feedback_good
                else if 50 \<le> r_score r then feedback_partial
                else feedback_needs_improvement)"
proof -
  from analyze_answered[OF assms, of question lecture_title course_name]
  show ?thesis by (auto simp: select_feedback_def)
qed

theorem feedback_selection_witness:
  "\<not> no_answer (lit ''idk'') \<and>
   (\<exists>r. analyze_student_answer (lit ''What is python?'') (lit ''idk'') (lit ''Intro'') (lit ''CS101'') = Inr r
      \<and> r_feedback r =
               (if \<not> min_length \<le> length (lit ''idk'') then feedback_too_brief
                else if 90 \<le> r_score r then feedback_excellent
                else if 70 \<le> r_score r then feedback_good
                else if 50 \<le> r_score r then feedback_partial
                else feedback_needs_improvement))"
proof -
  have h: "\<not> no_answer (lit ''idk'')" by (simp add: no_answer_def str_eval)
  from feedback_selection[OF h, of "(lit ''What is python?'')" "(lit ''Intro'')" "(lit ''CS101'')"] h
  show ?thesis by blast
qed

text \<open>
  The claim as written selects by the length-adequacy of the specification, the length of
  the trimmed answer. An answer of 26 characters followed by 30 spaces is not length-adequate
  in that sense, and would get the "too brief" message; the code takes its 56 characters as
  enough and selects by the score of 33.
\<close>

theorem feedback_selection_counterexample:
  "analyze_student_answer (lit ''What are the key features of Python?'')
     (lit ''Python is easy and simple.                              '')
     (lit ''Intro'') (lit ''CS101'') =
     Inr \<lparr>r_is_correct = False, r_score = 33, r_feedback = feedback_needs_improvement,
          r_question = lit ''What are the key features of Python?'',
          r_answer = lit ''Python is easy and simple.                              '',
          r_matched_keywords = Some 2, r_expected_keywords_count = Some 6\<rparr>
   \<and> spec_select_feedback 33
        (lit ''Python is easy and simple.                              '')
       = feedback_too_brief
   \<and> feedback_needs_improvement \<noteq> feedback_too_brief"
  by (simp add: str_eval num_eval prog_eval spec_select_feedback_def spec_length_adequate_def
      feedback_needs_improvement_def feedback_too_brief_def lit_def)

text \<open>
  Claim C9. \<^verbatim>\<open>analyze_student_answer\<close> raises nothing: for every question, answer, lecture
  title and course name it returns a result. The early return for an empty or
  whitespace-only answer is the only other path: the result lacks the two keyword counts
  exactly for such an answer.
\<close>

theorem analysis_is_total:
  "\<exists>r. analyze_student_answer question answer lecture_title course_name = Inr r
        \<and> (r_matched_keywords r = None) = no_answer answer
        \<and> (r_expected_keywords_count r = None) = no_answer answer"
proof (cases "no_answer answer")
  case True
  then show ?thesis by (simp add: analyze_no_answer)
next
  case False
  from analyze_answered[OF False, of question lecture_title course_name] False
  show ?thesis by auto
qed

text \<open>
  Claim C10. For every input, \<^verbatim>\<open>analyze_student_answer\<close> returns a result whose score is
  between 0 and 100 and whose \<^verbatim>\<open>is_correct\<close> is true exactly when the score is at least
  60, on the early return for an empty answer, with no expected keywords and with keywords.
\<close>

theorem score_range_and_verdict:
  "\<exists>r. analyze_student_answer question answer lecture_title course_name = Inr r
        \<and> 0 \<le> r_score r \<and> r_score r \<le> 100 \<and> r_is_correct r = (60 \<le> r_score r)"
proof (cases "no_answer answer")
  case True
  then show ?thesis by (simp add: analyze_no_answer)
next
  case False
  from analyze_answered[OF False, of question lecture_title course_name]
  show ?thesis by auto
qed

end
